theory Spec2Isabelle
  imports Complex_Main "HOL-Library.AList"
begin

section \<open>Composite actuators of odemis/driver/actuator.py\<close>

text \<open>
  Python floats are modelled by the real numbers: every arithmetic operation of the
  source is taken as the exact operation, so the statements below are about the
  algorithms and not about rounding.  Exceptions are values of the type
  \<open>py_error\<close>; a function that can raise returns \<open>py_error + 'a\<close>.
\<close>

datatype py_error =
    ValueError
  | KeyError
  | LookupError
  | IOError
  | NotImplementedError
  | ZeroDivisionError
  | AssertionError
  | DepError

subsection \<open>Float modulo\<close>

text \<open>
  Python's \<open>x % c\<close> on floats takes the sign of the divisor: it is
  \<open>x - c * floor (x / c)\<close>, and raises ZeroDivisionError when \<open>c = 0\<close>.
\<close>

definition fmod :: "real \<Rightarrow> real \<Rightarrow> real" where
  "fmod x c = x - c * of_int \<lfloor>x / c\<rfloor>"

definition py_mod :: "real \<Rightarrow> real \<Rightarrow> py_error + real" where
  "py_mod x c = (if c = 0 then Inl ZeroDivisionError else Inr (fmod x c))"

subsection \<open>RotationActuator._findShortestMove\<close>

text \<open>
  \<^verbatim>\<open>
  cur_pos = self._dependency.position.value[self._caxis]
  vector = target_pos - cur_pos
  mod1 = vector % self._cycle
  mod2 = -vector % self._cycle
  if mod1 < mod2: return mod1, cur_pos
  else:           return -mod2, cur_pos
  \<close>
  The position of the dependency is the argument \<open>cur_pos\<close>.
\<close>

definition findShortestMove :: "real \<Rightarrow> real \<Rightarrow> real \<Rightarrow> py_error + (real \<times> real)" where
  "findShortestMove cycle cur_pos target_pos =
     (let vector = target_pos - cur_pos in
      case py_mod vector cycle of
        Inl e \<Rightarrow> Inl e
      | Inr mod1 \<Rightarrow>
          (case py_mod (- vector) cycle of
             Inl e \<Rightarrow> Inl e
           | Inr mod2 \<Rightarrow>
               if mod1 < mod2 then Inr (mod1, cur_pos) else Inr (- mod2, cur_pos)))"

subsection \<open>ConvertStage: the affine conversion\<close>

text \<open>
  The metadata of a ConvertStage: MD_ROTATION_COR, MD_PIXEL_SIZE_COR and MD_POS_COR.
\<close>

record transform_params =
  rotation :: real
  scale :: "real \<times> real"
  translation :: "real \<times> real"

type_synonym vec2 = "real \<times> real"
type_synonym mat2 = "(real \<times> real) \<times> (real \<times> real)"

text \<open>\<open>numpy.ndarray.dot\<close> of a 2x2 matrix, given by its rows, and a vector.\<close>

definition mat_dot :: "mat2 \<Rightarrow> vec2 \<Rightarrow> vec2" where
  "mat_dot M v = (fst (fst M) * fst v + snd (fst M) * snd v,
                  fst (snd M) * fst v + snd (snd M) * snd v)"

text \<open>\<open>_updateConversion\<close> computes the two matrices and the offset.\<close>

definition Mtodep :: "transform_params \<Rightarrow> mat2" where
  "Mtodep t =
     ((cos (rotation t) * fst (scale t), - sin (rotation t) * fst (scale t)),
      (sin (rotation t) * snd (scale t), cos (rotation t) * snd (scale t)))"

definition Mfromdep :: "transform_params \<Rightarrow> mat2" where
  "Mfromdep t =
     ((cos (- rotation t) / fst (scale t), - sin (- rotation t) / snd (scale t)),
      (sin (- rotation t) / fst (scale t), cos (- rotation t) / snd (scale t)))"

definition convertPosFromdep :: "transform_params \<Rightarrow> vec2 \<Rightarrow> bool \<Rightarrow> vec2" where
  "convertPosFromdep t pos_dep absolute =
     (let p = mat_dot (Mfromdep t) pos_dep in
      if absolute then (fst p - fst (translation t), snd p - snd (translation t)) else p)"

definition convertPosTodep :: "transform_params \<Rightarrow> vec2 \<Rightarrow> bool \<Rightarrow> vec2" where
  "convertPosTodep t pos absolute =
     (let P = (if absolute then (fst pos + fst (translation t), snd pos + snd (translation t))
               else pos)
      in mat_dot (Mtodep t) P)"

subsection \<open>Axis descriptors and dependency calls\<close>

text \<open>
  A \<open>model.Axis\<close> as far as this file reads it: the attribute \<open>range\<close> exists for a
  continuous axis only (\<open>hasattr(ax, "range")\<close>), and \<open>canUpdate\<close> is a flag.
\<close>

record axis_def =
  rng :: "(real \<times> real) option"
  canUpdate :: bool

text \<open>
  A Python dict is an association list in insertion order; \<open>d[k]\<close> is \<open>map_of d k\<close>
  (\<open>None\<close> is the KeyError) and \<open>d[k] = v\<close> is \<open>AList.update k v d\<close>.
  The calls a composite actuator makes on a dependency are recorded in the order
  they are issued.
\<close>

type_synonym 'v dict = "(string \<times> 'v) list"

datatype dep_call =
    MoveRel "real dict"
  | MoveRelSync "real dict"
  | MoveAbs "real dict"
  | MoveAbsSync "real dict"
  | Reference "string set"
  | Stop "string set option"

subsection \<open>AntiBacklashActuator\<close>

record abl =
  abl_backlash :: "real dict"
  abl_axes :: "axis_def dict"
  abl_shifted :: "bool dict"

text \<open>
  The loop of \<open>__init__\<close> over the axes of the dependency:
  \<^verbatim>\<open>
  for an, ax in self._dependency.axes.items():
      axes_def[an] = copy.deepcopy(ax)
      axes_def[an].canUpdate = True
      if an in backlash and hasattr(ax, "range"):
          rng = ax.range
          if rng[1] - rng[0] < abs(backlash[an]):
              raise ValueError(...)
          if backlash[an] > 0:
              axes_def[an].range = (rng[0] + backlash[an], rng[1])
          else:
              axes_def[an].range = (rng[0], rng[1] + backlash[an])
  \<close>
\<close>

fun init_axes :: "real dict \<Rightarrow> axis_def dict \<Rightarrow> axis_def dict \<Rightarrow> py_error + axis_def dict" where
  "init_axes backlash [] axes_def = Inr axes_def"
| "init_axes backlash ((an, ax) # rest) axes_def =
     (case (map_of backlash an, rng ax) of
        (Some b, Some (lo, hi)) \<Rightarrow>
          if hi - lo < \<bar>b\<bar> then Inl ValueError
          else init_axes backlash rest
                 (AList.update an
                    (ax\<lparr>canUpdate := True,
                        rng := Some (if b > 0 then (lo + b, hi) else (lo, hi + b))\<rparr>)
                    axes_def)
      | _ \<Rightarrow> init_axes backlash rest (AList.update an (ax\<lparr>canUpdate := True\<rparr>) axes_def))"

text \<open>
  \<open>__init__\<close>: \<open>dependencies\<close> maps a role to the dependency, which is given here by
  its \<open>axes\<close>.  The two \<open>isinstance\<close> checks on the backlash entries hold by typing.
\<close>

definition AntiBacklashActuator_init :: "(axis_def dict) dict \<Rightarrow> real dict \<Rightarrow> py_error + abl" where
  "AntiBacklashActuator_init dependencies backlash =
     (if length dependencies \<noteq> 1 then Inl ValueError
      else case init_axes backlash (snd (hd dependencies)) [] of
             Inl e \<Rightarrow> Inl e
           | Inr axes_def \<Rightarrow>
               if set (map fst backlash) - set (map fst axes_def) \<noteq> {} then Inl ValueError
               else Inr \<lparr>abl_backlash = backlash, abl_axes = axes_def,
                         abl_shifted = map (\<lambda>(a, _). (a, False)) axes_def\<rparr>)"



datatype outcome = Returned | Raised py_error | Waiting














subsection \<open>ConvertStage.moveAbs and CoupledStage\<close>

text \<open>
  A call on a dependency returns a future; a move that fails is a future whose
  \<open>result()\<close> raises.  \<open>ConvertStage.moveAbs\<close> gives the argument of the
  \<open>moveAbs\<close> it issues on its dependency:
  \<^verbatim>\<open>
  cpos = self.position.value
  vpos = pos.get("x", cpos["x"]), pos.get("y", cpos["y"])
  vpos_dep = self._convertPosTodep(vpos)
  pos_dep = {self._axes_dep["x"]: vpos_dep[0], self._axes_dep["y"]: vpos_dep[1]}
  f = self._dependency.moveAbs(pos_dep, **kwargs)
  \<close>
\<close>

record convert_stage =
  cs_params :: transform_params
  cs_axes_dep :: "string \<times> string"
  cs_position :: vec2

definition ConvertStage_moveAbs :: "convert_stage \<Rightarrow> real dict \<Rightarrow> real dict" where
  "ConvertStage_moveAbs cs pos =
     (let cpos = cs_position cs;
          vpos = (case map_of pos ''x'' of Some v \<Rightarrow> v | None \<Rightarrow> fst cpos,
                  case map_of pos ''y'' of Some v \<Rightarrow> v | None \<Rightarrow> snd cpos);
          vpos_dep = convertPosTodep (cs_params cs) vpos True
      in AList.update (snd (cs_axes_dep cs)) (snd vpos_dep)
           [(fst (cs_axes_dep cs), fst vpos_dep)])"

text \<open>
  The body of a CoupledStage task is a sequence of statements that either completes
  or raises, and that adds to the calls issued so far.  \<open>issue\<close> is a call that
  returns a future, \<open>await\<close> is \<open>f.result()\<close> (\<open>None\<close>: it returns, \<open>Some e\<close>: it
  raises \<open>e\<close>), \<open>seq\<close> is the sequence of two statements and \<open>try_finally\<close> is
  Python's \<open>try: ... finally: ...\<close>: the second block runs whether the first one
  raised or not, and an exception of the second block replaces the one of the first.
\<close>

datatype coupled_call = Master dep_call | Slave dep_call

record coupled_state =
  c_calls :: "coupled_call list"
  c_position_updated :: bool

type_synonym task = "coupled_state \<Rightarrow> (py_error + unit) \<times> coupled_state"

definition issue :: "coupled_call \<Rightarrow> task" where
  "issue c s = (Inr (), s\<lparr>c_calls := c_calls s @ [c]\<rparr>)"

definition await :: "py_error option \<Rightarrow> task" where
  "await r s = (case r of None \<Rightarrow> (Inr (), s) | Some e \<Rightarrow> (Inl e, s))"

definition seq :: "task \<Rightarrow> task \<Rightarrow> task" where
  "seq a b s = (case a s of (Inl e, s1) \<Rightarrow> (Inl e, s1) | (Inr _, s1) \<Rightarrow> b s1)"

definition try_finally :: "task \<Rightarrow> task \<Rightarrow> task" where
  "try_finally body final s =
     (case body s of
        (r, s1) \<Rightarrow> (case final s1 of (Inl e2, s2) \<Rightarrow> (Inl e2, s2) | (Inr _, s2) \<Rightarrow> (r, s2)))"

definition updatePosition :: task where
  "updatePosition s = (Inr (), s\<lparr>c_position_updated := True\<rparr>)"

text \<open>
  What the task observes: \<open>master_result\<close> is the result of the future of the master
  move, \<open>mpos\<close> is \<open>self._master.position.value\<close> read afterwards, and
  \<open>slave_result\<close> is the result of the future of the move of the ConvertStage.
  \<^verbatim>\<open>
  def _doMoveAbs(self, pos):
      f = self._master.moveAbs(pos)
      try:
          f.result()
      finally:
          mpos = self._master.position.value
          f = self._stage_conv.moveAbs({"x": mpos["x"], "y": mpos["y"]})
          f.result()
      self._updatePosition()
  \<close>
  \<open>_doMoveRel\<close> is the same with \<open>self._master.moveRel(shift)\<close> as its first call.
\<close>

record coupled_env =
  master_result :: "py_error option"
  mpos :: vec2
  slave_result :: "py_error option"

definition CoupledStage_doMoveAbs :: "convert_stage \<Rightarrow> coupled_env \<Rightarrow> real dict \<Rightarrow> task" where
  "CoupledStage_doMoveAbs stage_conv env pos =
     seq (issue (Master (MoveAbs pos)))
       (seq (try_finally
               (await (master_result env))
               (seq (issue (Slave (MoveAbs (ConvertStage_moveAbs stage_conv
                                              [(''x'', fst (mpos env)), (''y'', snd (mpos env))]))))
                    (await (slave_result env))))
            updatePosition)"

definition CoupledStage_doMoveRel :: "convert_stage \<Rightarrow> coupled_env \<Rightarrow> real dict \<Rightarrow> task" where
  "CoupledStage_doMoveRel stage_conv env shift =
     seq (issue (Master (MoveRel shift)))
       (seq (try_finally
               (await (master_result env))
               (seq (issue (Slave (MoveAbs (ConvertStage_moveAbs stage_conv
                                              [(''x'', fst (mpos env)), (''y'', snd (mpos env))]))))
                    (await (slave_result env))))
            updatePosition)"

definition idle :: coupled_state where
  "idle = \<lparr>c_calls = [], c_position_updated = False\<rparr>"

subsection \<open>The public moveRel and moveAbs of the eight actuators\<close>

text \<open>
  A public move returns a future or raises before returning one.  The future is
  \<open>model.InstantaneousFuture()\<close> (already resolved, nothing was queued or called),
  the future of a task submitted to the executor of the actuator (with the
  \<open>_update_axes\<close> of the future when it is made by \<open>_createFuture\<close>), or the future
  that a call forwarded to a dependency returned.

  \<open>_checkMoveRel\<close>, \<open>_checkMoveAbs\<close> and \<open>_applyInversion\<close> belong to the base
  class \<open>model.Actuator\<close>, which this module imports: they are the
  parameters \<open>check\<close> (\<open>None\<close>: the argument is accepted, \<open>Some e\<close>: it raises
  \<open>e\<close>) and \<open>applyInversion\<close>.
\<close>

datatype 'v request = DoMoveRel "'v dict" | DoMoveAbs "'v dict"

datatype 'v future =
    InstantaneousFuture
  | ExecutorSubmit "'v request" "string set option"
  | DepFuture string "'v request"

type_synonym 'v checker = "'v dict \<Rightarrow> py_error option"

text \<open>
  MultiplexActuator: \<open>_axis_to_dep\<close> maps an axis to the name of its dependency and
  the axis there; \<open>_executor\<close> is None when there is one dependency only.
  \<^verbatim>\<open>
  def _moveTodepMove(self, mv, rel):
      dep_to_move = collections.defaultdict(dict)
      for axis, distance in mv.items():
          dep, dep_axis = self._axis_to_dep[axis]
          dep_to_move[dep].update({dep_axis: distance})
      return dep_to_move

  def moveRel(self, shift, **kwargs):
      if not shift:
          return model.InstantaneousFuture()
      self._checkMoveRel(shift)
      shift = self._applyInversion(shift)
      if self._executor:
          f = self._executor.submit(self._doMoveRel, shift, **kwargs)
      else:
          cmv = self._moveTodepMove(shift, rel=True)
          dep, move = cmv.popitem()
          assert not cmv
          f = dep.moveRel(move, **kwargs)
      return f
  \<close>
\<close>

record multiplex =
  mx_executor :: bool
  mx_axis_to_dep :: "(string \<times> string) dict"

fun moveTodepMove ::
  "(string \<times> string) dict \<Rightarrow> 'v dict \<Rightarrow> ('v dict) dict \<Rightarrow> py_error + ('v dict) dict" where
  "moveTodepMove axis_to_dep [] dep_to_move = Inr dep_to_move"
| "moveTodepMove axis_to_dep ((axis, distance) # rest) dep_to_move =
     (case map_of axis_to_dep axis of
        None \<Rightarrow> Inl KeyError
      | Some (dep, dep_axis) \<Rightarrow>
          moveTodepMove axis_to_dep rest
            (AList.update dep
               (AList.update dep_axis distance
                  (case map_of dep_to_move dep of None \<Rightarrow> [] | Some m \<Rightarrow> m))
               dep_to_move))"

definition forward_single ::
  "multiplex \<Rightarrow> ('v dict \<Rightarrow> 'v request) \<Rightarrow> 'v dict \<Rightarrow> py_error + 'v future" where
  "forward_single self req mv =
     (case moveTodepMove (mx_axis_to_dep self) mv [] of
        Inl e \<Rightarrow> Inl e
      | Inr cmv \<Rightarrow>
          (case rev cmv of
             [] \<Rightarrow> Inl KeyError
           | (dep, move) # others \<Rightarrow>
               if others \<noteq> [] then Inl AssertionError else Inr (DepFuture dep (req move))))"

definition MultiplexActuator_moveRel ::
  "multiplex \<Rightarrow> 'v checker \<Rightarrow> ('v dict \<Rightarrow> 'v dict) \<Rightarrow> 'v dict \<Rightarrow> py_error + 'v future" where
  "MultiplexActuator_moveRel self check applyInversion shift =
     (if shift = [] then Inr InstantaneousFuture
      else case check shift of
             Some e \<Rightarrow> Inl e
           | None \<Rightarrow>
               (let shift = applyInversion shift in
                if mx_executor self then Inr (ExecutorSubmit (DoMoveRel shift) None)
                else forward_single self DoMoveRel shift))"

definition MultiplexActuator_moveAbs ::
  "multiplex \<Rightarrow> 'v checker \<Rightarrow> ('v dict \<Rightarrow> 'v dict) \<Rightarrow> 'v dict \<Rightarrow> py_error + 'v future" where
  "MultiplexActuator_moveAbs self check applyInversion pos =
     (if pos = [] then Inr InstantaneousFuture
      else case check pos of
             Some e \<Rightarrow> Inl e
           | None \<Rightarrow>
               (let pos = applyInversion pos in
                if mx_executor self then Inr (ExecutorSubmit (DoMoveAbs pos) None)
                else forward_single self DoMoveAbs pos))"

text \<open>
  CoupledStage: an empty request is replaced before the check.
  \<^verbatim>\<open>
  def moveRel(self, shift):
      if not shift:
          shift = {"x": 0, "y": 0}
      self._checkMoveRel(shift)
      shift = self._applyInversion(shift)
      return self._executor.submit(self._doMoveRel, shift)

  def moveAbs(self, pos):
      if not pos:
          pos = self.position.value
      self._checkMoveAbs(pos)
      pos = self._applyInversion(pos)
      return self._executor.submit(self._doMoveAbs, pos)
  \<close>
\<close>

definition CoupledStage_moveRel ::
  "real checker \<Rightarrow> (real dict \<Rightarrow> real dict) \<Rightarrow> real dict \<Rightarrow> py_error + real future" where
  "CoupledStage_moveRel check applyInversion shift =
     (let shift = (if shift = [] then [(''x'', 0), (''y'', 0)] else shift) in
      case check shift of
        Some e \<Rightarrow> Inl e
      | None \<Rightarrow> Inr (ExecutorSubmit (DoMoveRel (applyInversion shift)) None))"

definition CoupledStage_moveAbs ::
  "real dict \<Rightarrow> real checker \<Rightarrow> (real dict \<Rightarrow> real dict) \<Rightarrow> real dict \<Rightarrow> py_error + real future" where
  "CoupledStage_moveAbs position check applyInversion pos =
     (let pos = (if pos = [] then position else pos) in
      case check pos of
        Some e \<Rightarrow> Inl e
      | None \<Rightarrow> Inr (ExecutorSubmit (DoMoveAbs (applyInversion pos)) None))"

text \<open>
  AntiBacklashActuator:
  \<^verbatim>\<open>
  def _createFuture(self, axes, update):
      f = CancellableFuture()
      f._update_axes = set()
      if update:
          if all(self.axes[a].canUpdate for a in axes):
              f._update_axes = axes
      return f

  def moveRel(self, shift, update=False):
      if not shift:
          return model.InstantaneousFuture()
      self._checkMoveRel(shift)
      f = self._createFuture(set(shift.keys()), update)
      return self._executor.submitf(f, self._doMoveRel, f, shift)
  \<close>
  \<open>moveAbs\<close> is the same with \<open>_checkMoveAbs\<close> and \<open>_doMoveAbs\<close>.  The axes of
  the request are axes of the actuator once the check has passed; an axis that is
  missing from \<open>self.axes\<close> is the KeyError of \<open>self.axes[a]\<close>.
\<close>

fun all_canUpdate :: "axis_def dict \<Rightarrow> string list \<Rightarrow> py_error + bool" where
  "all_canUpdate axes_def [] = Inr True"
| "all_canUpdate axes_def (a # rest) =
     (case map_of axes_def a of
        None \<Rightarrow> Inl KeyError
      | Some ax \<Rightarrow> if canUpdate ax then all_canUpdate axes_def rest else Inr False)"

definition createFuture :: "abl \<Rightarrow> string list \<Rightarrow> bool \<Rightarrow> py_error + string set" where
  "createFuture self axes update =
     (if update then
        (case all_canUpdate (abl_axes self) axes of
           Inl e \<Rightarrow> Inl e
         | Inr ok \<Rightarrow> if ok then Inr (set axes) else Inr {})
      else Inr {})"

definition AntiBacklashActuator_moveRel ::
  "abl \<Rightarrow> real checker \<Rightarrow> real dict \<Rightarrow> bool \<Rightarrow> py_error + real future" where
  "AntiBacklashActuator_moveRel self check shift update =
     (if shift = [] then Inr InstantaneousFuture
      else case check shift of
             Some e \<Rightarrow> Inl e
           | None \<Rightarrow>
               (case createFuture self (map fst shift) update of
                  Inl e \<Rightarrow> Inl e
                | Inr update_axes \<Rightarrow> Inr (ExecutorSubmit (DoMoveRel shift) (Some update_axes))))"

definition AntiBacklashActuator_moveAbs ::
  "abl \<Rightarrow> real checker \<Rightarrow> real dict \<Rightarrow> bool \<Rightarrow> py_error + real future" where
  "AntiBacklashActuator_moveAbs self check pos update =
     (if pos = [] then Inr InstantaneousFuture
      else case check pos of
             Some e \<Rightarrow> Inl e
           | None \<Rightarrow>
               (case createFuture self (map fst pos) update of
                  Inl e \<Rightarrow> Inl e
                | Inr update_axes \<Rightarrow> Inr (ExecutorSubmit (DoMoveAbs pos) (Some update_axes))))"

text \<open>
  LinearActuator and RotationActuator:
  \<^verbatim>\<open>
  def moveRel(self, shift):
      if not shift:
          return model.InstantaneousFuture()
      self._checkMoveRel(shift)
      f = self._executor.submit(self._doMoveRel, shift)
      return f
  \<close>
  \<open>LinearActuator.moveAbs\<close> applies \<open>_applyInversion\<close> after the check,
  \<open>RotationActuator.moveAbs\<close> does not.
\<close>

definition LinearActuator_moveRel :: "'v checker \<Rightarrow> 'v dict \<Rightarrow> py_error + 'v future" where
  "LinearActuator_moveRel check shift =
     (if shift = [] then Inr InstantaneousFuture
      else case check shift of
             Some e \<Rightarrow> Inl e
           | None \<Rightarrow> Inr (ExecutorSubmit (DoMoveRel shift) None))"

definition LinearActuator_moveAbs ::
  "'v checker \<Rightarrow> ('v dict \<Rightarrow> 'v dict) \<Rightarrow> 'v dict \<Rightarrow> py_error + 'v future" where
  "LinearActuator_moveAbs check applyInversion pos =
     (if pos = [] then Inr InstantaneousFuture
      else case check pos of
             Some e \<Rightarrow> Inl e
           | None \<Rightarrow> Inr (ExecutorSubmit (DoMoveAbs (applyInversion pos)) None))"

definition RotationActuator_moveRel :: "'v checker \<Rightarrow> 'v dict \<Rightarrow> py_error + 'v future" where
  "RotationActuator_moveRel check shift =
     (if shift = [] then Inr InstantaneousFuture
      else case check shift of
             Some e \<Rightarrow> Inl e
           | None \<Rightarrow> Inr (ExecutorSubmit (DoMoveRel shift) None))"

definition RotationActuator_moveAbs :: "'v checker \<Rightarrow> 'v dict \<Rightarrow> py_error + 'v future" where
  "RotationActuator_moveAbs check pos =
     (if pos = [] then Inr InstantaneousFuture
      else case check pos of
             Some e \<Rightarrow> Inl e
           | None \<Rightarrow> Inr (ExecutorSubmit (DoMoveAbs pos) None))"

text \<open>
  FixedPositionsActuator and CombinedSensorActuator:
  \<^verbatim>\<open>
  def moveRel(self, shift):
      if not shift:
          return model.InstantaneousFuture()
      self._checkMoveRel(shift)
      raise NotImplementedError("Relative move on fixed positions axis not supported")

  def moveAbs(self, pos):
      if not pos:
          return model.InstantaneousFuture()
      self._checkMoveAbs(pos)
      pos = self._applyInversion(pos)
      f = self._executor.submit(self._doMoveAbs, pos)
      return f
  \<close>
\<close>

definition FixedPositionsActuator_moveRel :: "'v checker \<Rightarrow> 'v dict \<Rightarrow> py_error + 'v future" where
  "FixedPositionsActuator_moveRel check shift =
     (if shift = [] then Inr InstantaneousFuture
      else case check shift of
             Some e \<Rightarrow> Inl e
           | None \<Rightarrow> Inl NotImplementedError)"

definition FixedPositionsActuator_moveAbs ::
  "'v checker \<Rightarrow> ('v dict \<Rightarrow> 'v dict) \<Rightarrow> 'v dict \<Rightarrow> py_error + 'v future" where
  "FixedPositionsActuator_moveAbs check applyInversion pos =
     (if pos = [] then Inr InstantaneousFuture
      else case check pos of
             Some e \<Rightarrow> Inl e
           | None \<Rightarrow> Inr (ExecutorSubmit (DoMoveAbs (applyInversion pos)) None))"

definition CombinedSensorActuator_moveRel :: "'v checker \<Rightarrow> 'v dict \<Rightarrow> py_error + 'v future" where
  "CombinedSensorActuator_moveRel check shift =
     (if shift = [] then Inr InstantaneousFuture
      else case check shift of
             Some e \<Rightarrow> Inl e
           | None \<Rightarrow> Inl NotImplementedError)"

definition CombinedSensorActuator_moveAbs ::
  "'v checker \<Rightarrow> ('v dict \<Rightarrow> 'v dict) \<Rightarrow> 'v dict \<Rightarrow> py_error + 'v future" where
  "CombinedSensorActuator_moveAbs check applyInversion pos =
     (if pos = [] then Inr InstantaneousFuture
      else case check pos of
             Some e \<Rightarrow> Inl e
           | None \<Rightarrow> Inr (ExecutorSubmit (DoMoveAbs (applyInversion pos)) None))"

text \<open>
  CombinedFixedPositionActuator: \<open>moveRel\<close> raises without calling the check.
  \<^verbatim>\<open>
  def moveRel(self, shift):
      if not shift:
          return model.InstantaneousFuture()
      raise NotImplementedError("Relative move on combined fixed positions axis not supported")

  def moveAbs(self, pos):
      if not pos:
          return model.InstantaneousFuture()
      self._checkMoveAbs(pos)
      if pos[self._axis_name] == self._fallback:
          raise ValueError("Not allowed to move to fallback position %s" % self._fallback)
      f = self._executor.submit(self._doMoveAbs, pos)
      return f
  \<close>
\<close>

definition CombinedFixedPositionActuator_moveRel :: "'v dict \<Rightarrow> py_error + 'v future" where
  "CombinedFixedPositionActuator_moveRel shift =
     (if shift = [] then Inr InstantaneousFuture else Inl NotImplementedError)"

definition CombinedFixedPositionActuator_moveAbs ::
  "string \<Rightarrow> string \<Rightarrow> string checker \<Rightarrow> string dict \<Rightarrow> py_error + string future" where
  "CombinedFixedPositionActuator_moveAbs axis_name fallback check pos =
     (if pos = [] then Inr InstantaneousFuture
      else case check pos of
             Some e \<Rightarrow> Inl e
           | None \<Rightarrow>
               (case map_of pos axis_name of
                  None \<Rightarrow> Inl KeyError
                | Some p \<Rightarrow>
                    if p = fallback then Inl ValueError
                    else Inr (ExecutorSubmit (DoMoveAbs pos) None)))"

subsection \<open>stop of FixedPositionsActuator and RotationActuator\<close>

text \<open>
  What \<open>stop\<close> does, in order: it cancels the queue of the executor, and it calls
  \<open>stop\<close> of the dependency.
  \<^verbatim>\<open>
  # FixedPositionsActuator
  def stop(self, axes=None):
      if axes is not None:
          axes = set()
          if self._axis in axes:
              axes.add(self._caxis)
      self._dependency.stop(axes=axes)

  # RotationActuator
  def stop(self, axes=None):
      if self._executor:
          self._executor.cancel()
      if axes is not None:
          axes = set()
          if self._axis in axes:
              axes.add(self._caxis)
      self._dependency.stop(axes=axes)
  \<close>
  The assignment \<open>axes = set()\<close> rebinds the parameter before it is tested.
\<close>

datatype stop_event = ExecutorCancel | DepStop "string set option"

definition FixedPositionsActuator_stop :: "string \<Rightarrow> string \<Rightarrow> string set option \<Rightarrow> stop_event list" where
  "FixedPositionsActuator_stop axis caxis axes =
     (let axes = (case axes of
                    None \<Rightarrow> None
                  | Some _ \<Rightarrow>
                      (let axes = {} in
                       Some (if axis \<in> axes then insert caxis axes else axes)))
      in [DepStop axes])"

definition RotationActuator_stop ::
  "bool \<Rightarrow> string \<Rightarrow> string \<Rightarrow> string set option \<Rightarrow> stop_event list" where
  "RotationActuator_stop executor axis caxis axes =
     (let cancelled = (if executor then [ExecutorCancel] else []);
          axes = (case axes of
                    None \<Rightarrow> None
                  | Some _ \<Rightarrow>
                      (let axes = {} in
                       Some (if axis \<in> axes then insert caxis axes else axes)))
      in cancelled @ [DepStop axes])"

subsection \<open>CombinedFixedPositionActuator: reading the position\<close>

text \<open>
  \<open>_positions\<close> maps a position name to the positions of the dependency axes,
  \<open>_atol\<close> and \<open>_cycle\<close> hold one entry per dependency (\<open>None\<close>: no cycle).
  The current positions of the dependencies are the argument \<open>cur\<close>.
  \<^verbatim>\<open>
  for pos_key, pos_dependencies in self._positions.items():
      for cp, tp, atol, cyl in zip(pos_dependencies_cur, pos_dependencies,
                                   self._atol, self._cycle):
          if cyl is None:
              dist = abs(cp - tp)
          else:
              dist = min((cp - tp) % cyl, (tp - cp) % cyl)
          if dist > atol:
              break
      else:
          return pos_key
  else:
      raise LookupError(...)
  \<close>
  \<open>zip\<close> stops at the shortest of its arguments.
\<close>

record cfpa =
  cf_positions :: "(real list) dict"
  cf_atol :: "real list"
  cf_cycle :: "real option list"
  cf_fallback :: string

definition axis_dist :: "real \<Rightarrow> real \<Rightarrow> real option \<Rightarrow> py_error + real" where
  "axis_dist cp tp cyl =
     (case cyl of
        None \<Rightarrow> Inr \<bar>cp - tp\<bar>
      | Some c \<Rightarrow>
          (case py_mod (cp - tp) c of
             Inl e \<Rightarrow> Inl e
           | Inr m1 \<Rightarrow>
               (case py_mod (tp - cp) c of
                  Inl e \<Rightarrow> Inl e
                | Inr m2 \<Rightarrow> Inr (min m1 m2))))"

fun axes_match ::
  "real list \<Rightarrow> real list \<Rightarrow> real list \<Rightarrow> real option list \<Rightarrow> py_error + bool" where
  "axes_match (cp # cps) (tp # tps) (atol # atols) (cyl # cyls) =
     (case axis_dist cp tp cyl of
        Inl e \<Rightarrow> Inl e
      | Inr d \<Rightarrow> if d > atol then Inr False else axes_match cps tps atols cyls)"
| "axes_match _ _ _ _ = Inr True"

fun find_position :: "cfpa \<Rightarrow> real list \<Rightarrow> (real list) dict \<Rightarrow> py_error + string" where
  "find_position self cur [] = Inl LookupError"
| "find_position self cur ((pos_key, pos_dependencies) # rest) =
     (case axes_match cur pos_dependencies (cf_atol self) (cf_cycle self) of
        Inl e \<Rightarrow> Inl e
      | Inr matched \<Rightarrow> if matched then Inr pos_key else find_position self cur rest)"

definition readPositionfromDependencies :: "cfpa \<Rightarrow> real list \<Rightarrow> py_error + string" where
  "readPositionfromDependencies self cur = find_position self cur (cf_positions self)"

text \<open>
  \<open>_updatePosition\<close> reports the key found, or the fallback on LookupError; the
  result is the value written to the position of the axis.
  \<^verbatim>\<open>
  try:
      pos_key_matching = self._readPositionfromDependencies()
      self.position._set_value({self._axis_name: pos_key_matching}, force_write=True)
  except LookupError:
      self.position._set_value({self._axis_name: self._fallback}, force_write=True)
  \<close>
\<close>

definition CombinedFixedPositionActuator_updatePosition :: "cfpa \<Rightarrow> real list \<Rightarrow> py_error + string" where
  "CombinedFixedPositionActuator_updatePosition self cur =
     (case readPositionfromDependencies self cur of
        Inr pos_key_matching \<Rightarrow> Inr pos_key_matching
      | Inl e \<Rightarrow> if e = LookupError then Inr (cf_fallback self) else Inl e)"

text \<open>
  The words of the specification: the distance on an axis is the absolute
  difference, or with a cycle the smaller of the two differences modulo the cycle; a
  table entry matches when on both axes the distance is within the tolerance of the
  axis; the reported position is the first matching entry of the table, or the
  fallback.
\<close>

definition spec_dist :: "real \<Rightarrow> real \<Rightarrow> real option \<Rightarrow> real" where
  "spec_dist cp tp cyl =
     (case cyl of None \<Rightarrow> \<bar>cp - tp\<bar> | Some c \<Rightarrow> min (fmod (cp - tp) c) (fmod (tp - cp) c))"

definition spec_matches :: "cfpa \<Rightarrow> real list \<Rightarrow> real list \<Rightarrow> bool" where
  "spec_matches self cur tp =
     (spec_dist (cur ! 0) (tp ! 0) (cf_cycle self ! 0) \<le> cf_atol self ! 0
      \<and> spec_dist (cur ! 1) (tp ! 1) (cf_cycle self ! 1) \<le> cf_atol self ! 1)"

definition spec_reported_position :: "cfpa \<Rightarrow> real list \<Rightarrow> string" where
  "spec_reported_position self cur =
     (case find (\<lambda>(pos_key, tp). spec_matches self cur tp) (cf_positions self) of
        Some (pos_key, tp) \<Rightarrow> pos_key
      | None \<Rightarrow> cf_fallback self)"

subsection \<open>CombinedSensorActuator: the move checked by the sensor\<close>

text \<open>
  \<open>_to_sensor\<close> maps a position of the actuator to the value the sensor reports
  there, \<open>_pos_shift\<close> is the correction kept between moves.  What the task
  observes: \<open>prev_pos\<close> is the position of the dependency before the move,
  \<open>main_result\<close> the result of the future of the absolute move, \<open>sensor env k\<close>
  the value read from the sensor after \<open>k\<close> corrective moves, and
  \<open>rel_result env k\<close> the result of the future of the \<open>k\<close>-th corrective move.
  \<^verbatim>\<open>
  def _doMoveAbs(self, pos):
      p = pos[self._axis]
      p_cor = p + self._pos_shift
      prev_pos = self._dependency.position.value[self._axis]
      self._dependency.moveAbs(pos).result()
      exp_spos = self._to_sensor[p]
      spos = self._sensor.position.value[self._axis_sensor]
      retry = 0
      tot_shift = 0
      while spos != exp_spos:
          retry += 1
          if retry == 10:
              raise IOError(...)
          if p_cor == prev_pos:
              return
          shift = (p_cor - prev_pos) * 0.1
          try:
              self._dependency.moveRel({self._axis: shift}).result()
          except Exception as ex:
              raise IOError(...)
          tot_shift += shift
          spos = self._sensor.position.value[self._axis_sensor]
      self._pos_shift += tot_shift
  \<close>
  The loop is a partial function: \<open>None\<close> is a loop that does not end.
\<close>

record 's csa =
  csa_axis :: string
  csa_axis_sensor :: string
  csa_to_sensor :: "(real \<times> 's) list"
  csa_pos_shift :: real

record 's csa_env =
  prev_pos :: real
  main_result :: "py_error option"
  sensor :: "nat \<Rightarrow> 's"
  rel_result :: "nat \<Rightarrow> py_error option"

datatype loop_end = Reached real | GaveUp | Failure py_error

partial_function (option) correct_loop ::
  "'s csa_env \<Rightarrow> string \<Rightarrow> real \<Rightarrow> 's \<Rightarrow> nat \<Rightarrow> real \<Rightarrow> 's \<Rightarrow> dep_call list
   \<Rightarrow> (loop_end \<times> dep_call list) option" where
  "correct_loop env axis p_cor exp_spos retry tot_shift spos calls =
     (if spos \<noteq> exp_spos then
        (let retry = retry + 1 in
         if retry = 10 then Some (Failure IOError, calls)
         else if p_cor = prev_pos env then Some (GaveUp, calls)
         else
           (let shift = (p_cor - prev_pos env) * (1/10);
                calls = calls @ [MoveRel [(axis, shift)]]
            in case rel_result env retry of
                 Some ex \<Rightarrow> Some (Failure IOError, calls)
               | None \<Rightarrow>
                   correct_loop env axis p_cor exp_spos retry (tot_shift + shift)
                     (sensor env retry) calls))
      else Some (Reached tot_shift, calls))"

record 's csa_result =
  csa_state :: "'s csa"
  csa_calls :: "dep_call list"
  csa_outcome :: outcome

definition CombinedSensorActuator_doMoveAbs ::
  "'s csa \<Rightarrow> 's csa_env \<Rightarrow> real dict \<Rightarrow> 's csa_result option" where
  "CombinedSensorActuator_doMoveAbs self env pos =
     (case map_of pos (csa_axis self) of
        None \<Rightarrow> Some \<lparr>csa_state = self, csa_calls = [], csa_outcome = Raised KeyError\<rparr>
      | Some p \<Rightarrow>
          (let p_cor = p + csa_pos_shift self;
               calls = [MoveAbs pos]
           in case main_result env of
                Some e \<Rightarrow> Some \<lparr>csa_state = self, csa_calls = calls, csa_outcome = Raised e\<rparr>
              | None \<Rightarrow>
                  (case map_of (csa_to_sensor self) p of
                     None \<Rightarrow>
                       Some \<lparr>csa_state = self, csa_calls = calls, csa_outcome = Raised KeyError\<rparr>
                   | Some exp_spos \<Rightarrow>
                       (case correct_loop env (csa_axis self) p_cor exp_spos 0 0 (sensor env 0) calls of
                          None \<Rightarrow> None
                        | Some (Reached tot_shift, calls) \<Rightarrow>
                            Some \<lparr>csa_state = self\<lparr>csa_pos_shift := csa_pos_shift self + tot_shift\<rparr>,
                                  csa_calls = calls, csa_outcome = Returned\<rparr>
                        | Some (GaveUp, calls) \<Rightarrow>
                            Some \<lparr>csa_state = self, csa_calls = calls, csa_outcome = Returned\<rparr>
                        | Some (Failure e, calls) \<Rightarrow>
                            Some \<lparr>csa_state = self, csa_calls = calls, csa_outcome = Raised e\<rparr>))))"

section \<open>Properties\<close>

subsection \<open>Float modulo and bounds on pi\<close>

lemma fmod_nonneg: "0 < c \<Longrightarrow> 0 \<le> fmod x c"
proof -
  assume c: "0 < c"
  have "of_int \<lfloor>x / c\<rfloor> * c \<le> x"
    using of_int_floor_le [of "x / c"] unfolding pos_le_divide_eq [OF c] .
  then show ?thesis by (simp add: fmod_def mult.commute)
qed

lemma fmod_less: "0 < c \<Longrightarrow> fmod x c < c"
proof -
  assume c: "0 < c"
  have "x / c < of_int \<lfloor>x / c\<rfloor> + 1" by linarith
  then have "x < c * (of_int \<lfloor>x / c\<rfloor> + 1)"
    using c by (simp add: field_simps)
  then show ?thesis by (simp add: fmod_def algebra_simps)
qed

lemma fmod_opposite_sum: "0 < c \<Longrightarrow> fmod x c + fmod (- x) c \<le> c"
proof -
  assume c: "0 < c"
  have "\<lceil>x / c\<rceil> - \<lfloor>x / c\<rfloor> \<le> 1" by (rule ceiling_diff_floor_le_1)
  moreover have "\<lfloor>- x / c\<rfloor> = - \<lceil>x / c\<rceil>" by (simp add: ceiling_def)
  ultimately have "- 1 \<le> \<lfloor>x / c\<rfloor> + \<lfloor>- x / c\<rfloor>" by simp
  then have "(- 1 :: real) \<le> of_int (\<lfloor>x / c\<rfloor> + \<lfloor>- x / c\<rfloor>)"
    by (metis of_int_le_iff of_int_minus of_int_1)
  then have "- c \<le> c * of_int (\<lfloor>x / c\<rfloor> + \<lfloor>- x / c\<rfloor>)"
    using c by (metis mult_left_mono less_imp_le mult_minus1_right)
  then show ?thesis by (simp add: fmod_def algebra_simps)
qed

lemma sin_upper: "sin (x::real) \<le> x - x^3/6 + x^5/120 + \<bar>x\<bar>^7/5040"
proof -
  have "\<bar>sin x - (\<Sum>m<7. sin_coeff m * x ^ m)\<bar> \<le> inverse (fact 7) * \<bar>x\<bar> ^ 7"
    by (rule Maclaurin_sin_bound)
  moreover have "(\<Sum>m<7. sin_coeff m * x ^ m) = x - x^3/6 + x^5/120"
    by (simp add: sin_coeff_def lessThan_nat_numeral lessThan_Suc fact_numeral)
  moreover have "inverse (fact 7) * \<bar>x\<bar> ^ 7 = \<bar>x\<bar>^7/5040"
    by (simp add: fact_numeral field_simps)
  ultimately show ?thesis by linarith
qed

lemma sin_lower: "x - x^3/6 - \<bar>x\<bar>^5/120 \<le> sin (x::real)"
proof -
  have "\<bar>sin x - (\<Sum>m<5. sin_coeff m * x ^ m)\<bar> \<le> inverse (fact 5) * \<bar>x\<bar> ^ 5"
    by (rule Maclaurin_sin_bound)
  moreover have "(\<Sum>m<5. sin_coeff m * x ^ m) = x - x^3/6"
    by (simp add: sin_coeff_def lessThan_nat_numeral lessThan_Suc fact_numeral)
  moreover have "inverse (fact 5) * \<bar>x\<bar> ^ 5 = \<bar>x\<bar>^5/120"
    by (simp add: fact_numeral field_simps)
  ultimately show ?thesis by linarith
qed

lemma pi_gt_314: "314/100 < pi"
proof (rule ccontr)
  assume "\<not> 314/100 < pi"
  then have le: "pi/6 \<le> 157/300" by simp
  have "sin (pi/6) \<le> sin (157/300)"
    by (rule sin_monotone_2pi_le) (use le pi_ge_two in auto)
  moreover have "sin (157/300::real) < 1/2"
    using sin_upper [of "157/300"] by (simp add: power_divide)
  ultimately show False by (simp add: sin_30)
qed

lemma pi_lt_315: "pi < 315/100"
proof (rule ccontr)
  assume "\<not> pi < 315/100"
  then have le: "21/40 \<le> pi/6" by simp
  have "sin (21/40) \<le> sin (pi/6)"
    by (rule sin_monotone_2pi_le) (use le pi_ge_two in auto)
  moreover have "1/2 < sin (21/40::real)"
    using sin_lower [of "21/40"] by (simp add: power_divide)
  ultimately show False by (simp add: sin_30)
qed

subsection \<open>RotationActuator: the shortest move\<close>

lemma findShortestMove_eq:
  "c \<noteq> 0 \<Longrightarrow> findShortestMove c p t =
     Inr (if fmod (t - p) c < fmod (p - t) c then fmod (t - p) c else - fmod (p - t) c, p)"
  by (simp add: findShortestMove_def py_mod_def Let_def)

lemma fmod_2pi_pos: "fmod (61/10) (2 * pi) = 61/10"
proof -
  have "0 \<le> 61/10 / (2 * pi)" using pi_gt_zero by simp
  moreover have "61/10 / (2 * pi) < 1" using pi_gt_314 by (simp add: field_simps)
  ultimately have "\<lfloor>61/10 / (2 * pi)\<rfloor> = 0" by linarith
  then show ?thesis by (simp add: fmod_def)
qed

lemma fmod_2pi_neg: "fmod (- (61/10)) (2 * pi) = 2 * pi - 61/10"
proof -
  have "- (61/10) / (2 * pi) < 0" using pi_gt_zero by simp
  moreover have "- 1 \<le> - (61/10) / (2 * pi)" using pi_gt_314 by (simp add: field_simps)
  ultimately have "\<lfloor>- (61/10) / (2 * pi)\<rfloor> = - 1" by linarith
  then show ?thesis by (simp add: fmod_def)
qed

lemma findShortestMove_2pi:
  "findShortestMove (2 * pi) (1/10) (62/10) = Inr (61/10 - 2 * pi, 1/10)"
proof -
  have a: "(62/10 - 1/10 :: real) = 61/10" by simp
  have b: "(1/10 - 62/10 :: real) = - (61/10)" by simp
  have "2 * pi \<noteq> 0" using pi_gt_zero by simp
  then show ?thesis
    using pi_lt_315 by (simp add: findShortestMove_eq a b fmod_2pi_pos fmod_2pi_neg)
qed

text \<open>
  Claim C2 (amended).  With a cycle \<open>c > 0\<close>, for every current position of the
  dependency and every target, \<open>_findShortestMove\<close> returns (it does not raise) the
  signed move \<open>(target - current) mod c\<close> when that is the smaller of the two modulo
  distances and \<open>- ((current - target) mod c)\<close> otherwise; the absolute value of the
  move is the minimum of the two distances and is at most \<open>c / 2\<close>.  With
  \<open>c = 2 pi\<close>, current position 0.1 and target 6.2 the returned move is
  \<open>6.1 - 2 pi\<close>: negative, between -0.2 and -0.18.
\<close>

theorem findShortestMove_shortest:
  "(0 < c \<longrightarrow>
      (\<exists>m. findShortestMove c p t = Inr (m, p)
         \<and> m = (if fmod (t - p) c < fmod (p - t) c then fmod (t - p) c else - fmod (p - t) c)
         \<and> \<bar>m\<bar> = min (fmod (t - p) c) (fmod (p - t) c)
         \<and> \<bar>m\<bar> \<le> c / 2))
   \<and> findShortestMove (2 * pi) (1/10) (62/10) = Inr (61/10 - 2 * pi, 1/10)
   \<and> - (20/100) < 61/10 - 2 * pi \<and> 61/10 - 2 * pi < - (18/100)"
proof (intro conjI impI)
  assume c: "0 < c"
  let ?a = "fmod (t - p) c" and ?b = "fmod (p - t) c"
  have a0: "0 \<le> ?a" and b0: "0 \<le> ?b" using c by (simp_all add: fmod_nonneg)
  have "?a + fmod (- (t - p)) c \<le> c" using c by (rule fmod_opposite_sum)
  then have s: "?a + ?b \<le> c" by simp
  show "\<exists>m. findShortestMove c p t = Inr (m, p)
         \<and> m = (if ?a < ?b then ?a else - ?b)
         \<and> \<bar>m\<bar> = min ?a ?b \<and> \<bar>m\<bar> \<le> c / 2"
    using c a0 b0 s by (auto simp: findShortestMove_eq min_def)
next
  show "findShortestMove (2 * pi) (1/10) (62/10) = Inr (61/10 - 2 * pi, 1/10)"
    by (rule findShortestMove_2pi)
next
  show "- (20/100) < 61/10 - 2 * pi" using pi_lt_315 by linarith
next
  show "61/10 - 2 * pi < - (18/100)" using pi_gt_314 by linarith
qed

theorem findShortestMove_shortest_witness:
  "(0::real) < 360 \<and> findShortestMove 360 10 350 = Inr (- 20, 10)
   \<and> \<bar>- 20 :: real\<bar> \<le> 360 / 2"
  using findShortestMove_shortest [of 360 350 10]
  by (simp add: findShortestMove_eq fmod_def)

text \<open>
  The claim as stated gives about -0.083 for the move from 0.1 to 6.2 with the cycle
  \<open>2 pi\<close>; the move the code returns is below -0.18.
\<close>

theorem findShortestMove_2pi_counterexample:
  "findShortestMove (2 * pi) (1/10) (62/10) = Inr (61/10 - 2 * pi, 1/10)
   \<and> 61/10 - 2 * pi < - (18/100)"
  using findShortestMove_2pi pi_gt_314 by auto

subsection \<open>ConvertStage: the two conversions are inverse to each other\<close>

lemma mat_inv1:
  assumes "sx \<noteq> 0" "sy \<noteq> 0"
  shows "mat_dot (Mtodep \<lparr>rotation = r, scale = (sx, sy), translation = tr\<rparr>)
           (mat_dot (Mfromdep \<lparr>rotation = r, scale = (sx, sy), translation = tr\<rparr>) (x, y)) = (x, y)"
proof -
  have sc: "cos r * cos r = 1 - sin r * sin r"
    using sin_cos_squared_add [of r] by (simp add: power2_eq_square algebra_simps)
  have "(cos r * sx) * (cos r / sx * x + sin r / sy * y)
          + (- sin r * sx) * (- sin r / sx * x + cos r / sy * y) = x"
    using assms by (simp add: field_simps sc)
  moreover have "(sin r * sy) * (cos r / sx * x + sin r / sy * y)
          + (cos r * sy) * (- sin r / sx * x + cos r / sy * y) = y"
    using assms by (simp add: field_simps sc)
  ultimately show ?thesis
    by (simp add: mat_dot_def Mtodep_def Mfromdep_def)
qed

lemma mat_inv2:
  assumes "sx \<noteq> 0" "sy \<noteq> 0"
  shows "mat_dot (Mfromdep \<lparr>rotation = r, scale = (sx, sy), translation = tr\<rparr>)
           (mat_dot (Mtodep \<lparr>rotation = r, scale = (sx, sy), translation = tr\<rparr>) (x, y)) = (x, y)"
proof -
  have sc: "cos r * cos r = 1 - sin r * sin r"
    using sin_cos_squared_add [of r] by (simp add: power2_eq_square algebra_simps)
  have "cos r / sx * (cos r * sx * x + - sin r * sx * y)
          + sin r / sy * (sin r * sy * x + cos r * sy * y) = x"
    using assms by (simp add: field_simps sc)
  moreover have "- sin r / sx * (cos r * sx * x + - sin r * sx * y)
          + cos r / sy * (sin r * sy * x + cos r * sy * y) = y"
    using assms by (simp add: field_simps sc)
  ultimately show ?thesis
    by (simp add: mat_dot_def Mtodep_def Mfromdep_def)
qed

lemma Mtodep_Mfromdep:
  assumes "fst (scale t) \<noteq> 0" "snd (scale t) \<noteq> 0"
  shows "mat_dot (Mtodep t) (mat_dot (Mfromdep t) v) = v"
proof -
  obtain r sx sy tr where t: "t = \<lparr>rotation = r, scale = (sx, sy), translation = tr\<rparr>"
    by (cases t) auto
  obtain x y where v: "v = (x, y)" by (cases v)
  have s: "sx \<noteq> 0" "sy \<noteq> 0" using assms t by simp_all
  show ?thesis unfolding t v by (rule mat_inv1 [OF s])
qed

lemma Mfromdep_Mtodep:
  assumes "fst (scale t) \<noteq> 0" "snd (scale t) \<noteq> 0"
  shows "mat_dot (Mfromdep t) (mat_dot (Mtodep t) v) = v"
proof -
  obtain r sx sy tr where t: "t = \<lparr>rotation = r, scale = (sx, sy), translation = tr\<rparr>"
    by (cases t) auto
  obtain x y where v: "v = (x, y)" by (cases v)
  have s: "sx \<noteq> 0" "sy \<noteq> 0" using assms t by simp_all
  show ?thesis unfolding t v by (rule mat_inv2 [OF s])
qed

text \<open>
  Claim C3.  For any rotation, any scale pair with both entries non-zero and any
  translation, \<open>_convertPosTodep\<close> and \<open>_convertPosFromdep\<close> are inverse to each
  other on every 2D position, with \<open>absolute = True\<close> (translation applied) and with
  \<open>absolute = False\<close> (translation skipped).  Over the reals the equality is exact.
\<close>

theorem ConvertStage_roundtrip:
  assumes "fst (scale t) \<noteq> 0" "snd (scale t) \<noteq> 0"
  shows "convertPosTodep t (convertPosFromdep t p absolute) absolute = p
       \<and> convertPosFromdep t (convertPosTodep t p absolute) absolute = p"
proof
  have "convertPosTodep t (convertPosFromdep t p absolute) absolute
          = mat_dot (Mtodep t) (mat_dot (Mfromdep t) p)"
    by (cases absolute) (simp_all add: convertPosTodep_def convertPosFromdep_def Let_def)
  then show "convertPosTodep t (convertPosFromdep t p absolute) absolute = p"
    by (simp add: Mtodep_Mfromdep [OF assms])
next
  show "convertPosFromdep t (convertPosTodep t p absolute) absolute = p"
    by (cases absolute)
      (simp_all add: convertPosTodep_def convertPosFromdep_def Let_def Mfromdep_Mtodep [OF assms])
qed

theorem ConvertStage_roundtrip_witness:
  "(2::real) \<noteq> 0 \<and> (4::real) \<noteq> 0
   \<and> convertPosFromdep \<lparr>rotation = pi/2, scale = (2, 4), translation = (1, 3)\<rparr> (5, 7) True
         = (3/4, - (11/2))
   \<and> convertPosTodep \<lparr>rotation = pi/2, scale = (2, 4), translation = (1, 3)\<rparr>
         (convertPosFromdep \<lparr>rotation = pi/2, scale = (2, 4), translation = (1, 3)\<rparr> (5, 7) True) True
         = (5, 7)
   \<and> convertPosTodep \<lparr>rotation = pi/2, scale = (2, 4), translation = (1, 3)\<rparr> (5, 7) True
         = (- 20, 24)
   \<and> convertPosFromdep \<lparr>rotation = pi/2, scale = (2, 4), translation = (1, 3)\<rparr>
         (convertPosTodep \<lparr>rotation = pi/2, scale = (2, 4), translation = (1, 3)\<rparr> (5, 7) True) True
         = (5, 7)"
  using ConvertStage_roundtrip
          [of "\<lparr>rotation = pi/2, scale = (2, 4), translation = (1, 3)\<rparr>" "(5, 7)" True]
  by (simp add: convertPosTodep_def convertPosFromdep_def mat_dot_def Mtodep_def Mfromdep_def)

subsection \<open>AntiBacklashActuator: the range check of the constructor\<close>

lemma init_axes_fail:
  "(an, ax) \<in> set axes \<Longrightarrow> map_of backlash an = Some b \<Longrightarrow> rng ax = Some (lo, hi) \<Longrightarrow> hi - lo < \<bar>b\<bar>
   \<Longrightarrow> init_axes backlash axes acc = Inl ValueError"
proof (induction axes arbitrary: acc)
  case Nil then show ?case by simp
next
  case (Cons p axes)
  obtain an' ax' where p: "p = (an', ax')" by (cases p)
  show ?case
  proof (cases "(an, ax) = p")
    case True
    with Cons.prems p show ?thesis by simp
  next
    case False
    with Cons.prems have "(an, ax) \<in> set axes" by simp
    from Cons.IH [OF this Cons.prems(2-4)] show ?thesis
      by (auto simp: p split: option.splits)
  qed
qed

lemma init_axes_ok:
  "\<forall>(an, ax) \<in> set axes. \<forall>b lo hi. map_of backlash an = Some b \<and> rng ax = Some (lo, hi) \<longrightarrow> \<bar>b\<bar> \<le> hi - lo
   \<Longrightarrow> \<exists>r. init_axes backlash axes acc = Inr r \<and> set (map fst r) = set (map fst acc) \<union> set (map fst axes)"
proof (induction axes arbitrary: acc)
  case Nil then show ?case by simp
next
  case (Cons p axes)
  obtain an' ax' where p: "p = (an', ax')" by (cases p)
  from Cons.prems have rest: "\<forall>(an, ax) \<in> set axes. \<forall>b lo hi. map_of backlash an = Some b \<and> rng ax = Some (lo, hi) \<longrightarrow> \<bar>b\<bar> \<le> hi - lo"
    by simp
  from Cons.prems p have hd: "\<And>b lo hi. map_of backlash an' = Some b \<Longrightarrow> rng ax' = Some (lo, hi) \<Longrightarrow> \<bar>b\<bar> \<le> hi - lo"
    by auto
  have keys: "\<And>v. set (map fst (AList.update an' v acc)) = insert an' (set (map fst acc))"
    by (simp add: dom_update)
  show ?case
  proof (cases "map_of backlash an'")
    case None
    then show ?thesis
      using Cons.IH [OF rest, of "AList.update an' (ax'\<lparr>canUpdate := True\<rparr>) acc"] keys
      by (auto simp: p)
  next
    case (Some b)
    show ?thesis
    proof (cases "rng ax'")
      case None
      then show ?thesis
        using Some Cons.IH [OF rest, of "AList.update an' (ax'\<lparr>canUpdate := True\<rparr>) acc"] keys
        by (auto simp: p)
    next
      case (Some r)
      obtain lo hi where r: "r = (lo, hi)" by (cases r)
      have "\<not> hi - lo < \<bar>b\<bar>" using hd [OF \<open>map_of backlash an' = Some b\<close>] Some r by fastforce
      then show ?thesis
        using Some r \<open>map_of backlash an' = Some b\<close> keys
          Cons.IH [OF rest, of "AList.update an' (ax'\<lparr>canUpdate := True,
                        rng := Some (if b > 0 then (lo + b, hi) else (lo, hi + b))\<rparr>) acc"]
        by (auto simp: p)
    qed
  qed
qed

text \<open>
  Claim C8 (amended).  Construction of an AntiBacklashActuator fails with a ValueError
  for every axis of the dependency that has both a backlash entry and a range whenever
  the magnitude of the backlash is strictly greater than the span of the range; when
  on every such axis the magnitude is at most the span (equality included), the range
  check passes, and construction succeeds if moreover every backlash key is an axis of
  the dependency.
\<close>

theorem AntiBacklashActuator_init_range_check:
  "((an, ax) \<in> set axes \<and> map_of backlash an = Some b \<and> rng ax = Some (lo, hi)
      \<and> hi - lo < \<bar>b\<bar>
      \<longrightarrow> AntiBacklashActuator_init [(role, axes)] backlash = Inl ValueError)
   \<and> ((\<forall>(an, ax) \<in> set axes. \<forall>b lo hi.
          map_of backlash an = Some b \<and> rng ax = Some (lo, hi) \<longrightarrow> \<bar>b\<bar> \<le> hi - lo)
      \<longrightarrow> (\<exists>axes_def. init_axes backlash axes [] = Inr axes_def)
        \<and> (set (map fst backlash) \<subseteq> set (map fst axes)
             \<longrightarrow> (\<exists>st. AntiBacklashActuator_init [(role, axes)] backlash = Inr st)))"
proof (intro conjI impI)
  assume "(an, ax) \<in> set axes \<and> map_of backlash an = Some b \<and> rng ax = Some (lo, hi)
      \<and> hi - lo < \<bar>b\<bar>"
  then have "init_axes backlash axes [] = Inl ValueError"
    by (metis init_axes_fail)
  then show "AntiBacklashActuator_init [(role, axes)] backlash = Inl ValueError"
    by (simp add: AntiBacklashActuator_init_def)
next
  assume ok: "\<forall>(an, ax) \<in> set axes. \<forall>b lo hi.
          map_of backlash an = Some b \<and> rng ax = Some (lo, hi) \<longrightarrow> \<bar>b\<bar> \<le> hi - lo"
  from init_axes_ok [OF ok, of "[]"]
  show "\<exists>axes_def. init_axes backlash axes [] = Inr axes_def" by blast
next
  assume ok: "\<forall>(an, ax) \<in> set axes. \<forall>b lo hi.
          map_of backlash an = Some b \<and> rng ax = Some (lo, hi) \<longrightarrow> \<bar>b\<bar> \<le> hi - lo"
    and sub: "set (map fst backlash) \<subseteq> set (map fst axes)"
  from init_axes_ok [OF ok, of "[]"] obtain r where
    r: "init_axes backlash axes [] = Inr r" "set (map fst r) = set (map fst axes)" by auto
  from sub r(2) have "set (map fst backlash) - set (map fst r) = {}" by blast
  then show "\<exists>st. AntiBacklashActuator_init [(role, axes)] backlash = Inr st"
    using r(1) by (simp add: AntiBacklashActuator_init_def)
qed

theorem AntiBacklashActuator_init_range_check_witness:
  "AntiBacklashActuator_init
      [(''stage'', [(''x'', \<lparr>rng = Some (0, 1), canUpdate = False\<rparr>)])] [(''x'', - 2)]
     = Inl ValueError
   \<and> AntiBacklashActuator_init
      [(''stage'', [(''x'', \<lparr>rng = Some (0, 1), canUpdate = False\<rparr>)])] [(''x'', 1/2)]
     = Inr \<lparr>abl_backlash = [(''x'', 1/2)],
            abl_axes = [(''x'', \<lparr>rng = Some (1/2, 1), canUpdate = True\<rparr>)],
            abl_shifted = [(''x'', False)]\<rparr>"
  using AntiBacklashActuator_init_range_check
          [of "''x''" "\<lparr>rng = Some (0, 1), canUpdate = False\<rparr>"
              "[(''x'', \<lparr>rng = Some (0, 1), canUpdate = False\<rparr>)]"
              "[(''x'', - 2)]" "- 2" 0 1 "''stage''"]
        AntiBacklashActuator_init_range_check
          [of "''x''" "\<lparr>rng = Some (0, 1), canUpdate = False\<rparr>"
              "[(''x'', \<lparr>rng = Some (0, 1), canUpdate = False\<rparr>)]"
              "[(''x'', 1/2)]" "1/2" 0 1 "''stage''"]
  by (simp add: AntiBacklashActuator_init_def)

text \<open>
  The claim as stated also rejects a backlash equal to the span; the constructor
  accepts it: with the range \<open>(0, 1)\<close> and the backlash 1 it returns an actuator whose
  range is \<open>(1, 1)\<close>.
\<close>

theorem AntiBacklashActuator_init_equal_span_counterexample:
  "\<bar>1 :: real\<bar> \<ge> 1 - 0
   \<and> AntiBacklashActuator_init
      [(''stage'', [(''x'', \<lparr>rng = Some (0, 1), canUpdate = False\<rparr>)])] [(''x'', 1)]
     = Inr \<lparr>abl_backlash = [(''x'', 1)],
            abl_axes = [(''x'', \<lparr>rng = Some (1, 1), canUpdate = True\<rparr>)],
            abl_shifted = [(''x'', False)]\<rparr>"
  by (simp add: AntiBacklashActuator_init_def)

subsection \<open>AntiBacklashActuator: relative moves\<close>













subsection \<open>CoupledStage: the slave follows the master on success and on failure\<close>

text \<open>
  Claim C4.  The body of every moveAbs and moveRel task of a CoupledStage issues the
  master move first and then, whether the future of the master move returns or
  raises, one absolute move of the slave through the ConvertStage, computed from the
  position the master reports after its move; only then does a failure of the
  master move propagate (a failure of the slave move propagates in its place), and
  the position is updated on success only.
\<close>

theorem CoupledStage_resync:
  "c_calls (snd (CoupledStage_doMoveAbs stage_conv env pos idle))
     = [Master (MoveAbs pos),
        Slave (MoveAbs (ConvertStage_moveAbs stage_conv
                          [(''x'', fst (mpos env)), (''y'', snd (mpos env))]))]
   \<and> c_calls (snd (CoupledStage_doMoveRel stage_conv env shift idle))
     = [Master (MoveRel shift),
        Slave (MoveAbs (ConvertStage_moveAbs stage_conv
                          [(''x'', fst (mpos env)), (''y'', snd (mpos env))]))]
   \<and> fst (CoupledStage_doMoveAbs stage_conv env pos idle)
     = (case slave_result env of
          Some e2 \<Rightarrow> Inl e2
        | None \<Rightarrow> (case master_result env of Some e \<Rightarrow> Inl e | None \<Rightarrow> Inr ()))
   \<and> fst (CoupledStage_doMoveRel stage_conv env shift idle)
     = (case slave_result env of
          Some e2 \<Rightarrow> Inl e2
        | None \<Rightarrow> (case master_result env of Some e \<Rightarrow> Inl e | None \<Rightarrow> Inr ()))
   \<and> c_position_updated (snd (CoupledStage_doMoveAbs stage_conv env pos idle))
     = (master_result env = None \<and> slave_result env = None)
   \<and> c_position_updated (snd (CoupledStage_doMoveRel stage_conv env shift idle))
     = (master_result env = None \<and> slave_result env = None)
   \<and> ConvertStage_moveAbs stage_conv [(''x'', fst (mpos env)), (''y'', snd (mpos env))]
     = AList.update (snd (cs_axes_dep stage_conv))
         (snd (convertPosTodep (cs_params stage_conv) (mpos env) True))
         [(fst (cs_axes_dep stage_conv),
           fst (convertPosTodep (cs_params stage_conv) (mpos env) True))]"
  by (cases "master_result env"; cases "slave_result env")
     (simp_all add: CoupledStage_doMoveAbs_def CoupledStage_doMoveRel_def ConvertStage_moveAbs_def
        seq_def issue_def await_def try_finally_def updatePosition_def idle_def Let_def)

lemma CoupledStage_failure_example:
  "CoupledStage_doMoveAbs
     \<lparr>cs_params = \<lparr>rotation = 0, scale = (2, 4), translation = (1, 3)\<rparr>,
      cs_axes_dep = (''x'', ''y''), cs_position = (0, 0)\<rparr>
     \<lparr>master_result = Some DepError, mpos = (5, 7), slave_result = None\<rparr>
     [(''x'', 10), (''y'', 20)] idle
   = (Inl DepError,
      \<lparr>c_calls = [Master (MoveAbs [(''x'', 10), (''y'', 20)]),
                 Slave (MoveAbs [(''x'', 12), (''y'', 40)])],
       c_position_updated = False\<rparr>)"
  by (simp add: CoupledStage_doMoveAbs_def ConvertStage_moveAbs_def convertPosTodep_def
        mat_dot_def Mtodep_def seq_def issue_def await_def try_finally_def updatePosition_def
        idle_def)

subsection \<open>stop, and the public moves on empty and on relative requests\<close>

text \<open>
  Claim C7 (the code at the failing input).  Whatever set of axes \<open>stop\<close> is given,
  the dependency is told to stop the empty set of axes: the name of the dependency
  axis is never forwarded.  FixedPositionsActuator does not cancel the queue either;
  RotationActuator does.  In particular for \<open>stop({"band"})\<close> on a
  FixedPositionsActuator whose axis \<open>band\<close> is bound to the dependency axis \<open>x\<close>, and
  for \<open>stop({"rz"})\<close> on a RotationActuator whose axis \<open>rz\<close> is bound to \<open>x\<close>.
\<close>

theorem stop_forwards_no_axis:
  "FixedPositionsActuator_stop axis caxis (Some axes) = [DepStop (Some {})]
   \<and> RotationActuator_stop True axis caxis (Some axes) = [ExecutorCancel, DepStop (Some {})]
   \<and> FixedPositionsActuator_stop ''band'' ''x'' (Some {''band''}) = [DepStop (Some {})]
   \<and> RotationActuator_stop True ''rz'' ''x'' (Some {''rz''}) = [ExecutorCancel, DepStop (Some {})]"
  by (simp add: FixedPositionsActuator_stop_def RotationActuator_stop_def)

text \<open>
  Claim C9.  On a FixedPositionsActuator, \<open>moveRel\<close> with a non-empty shift that
  \<open>_checkMoveRel\<close> accepts raises NotImplementedError; on a
  CombinedFixedPositionActuator, \<open>moveRel\<close> with any non-empty shift does.  The
  exception is the result of the call itself: no future is returned, so no task was
  submitted to the executor and no call was made on a dependency.
\<close>

theorem moveRel_discrete_not_implemented:
  "(shift \<noteq> [] \<and> check shift = None
      \<longrightarrow> FixedPositionsActuator_moveRel check shift = Inl NotImplementedError)
   \<and> (shift \<noteq> [] \<longrightarrow> CombinedFixedPositionActuator_moveRel shift = Inl NotImplementedError)"
  by (simp add: FixedPositionsActuator_moveRel_def CombinedFixedPositionActuator_moveRel_def)

theorem moveRel_discrete_not_implemented_witness:
  "[(''band'', 1::real)] \<noteq> [] \<and> (\<lambda>_. None) [(''band'', 1::real)] = (None :: py_error option)
   \<and> FixedPositionsActuator_moveRel (\<lambda>_. None) [(''band'', 1::real)] = Inl NotImplementedError
   \<and> CombinedFixedPositionActuator_moveRel [(''pol'', ''A'')] = Inl NotImplementedError"
  using moveRel_discrete_not_implemented [of "[(''band'', 1::real)]" "\<lambda>_. None"]
        moveRel_discrete_not_implemented [of "[(''pol'', ''A'')]" "\<lambda>_. None"]
  by simp

text \<open>
  Claim C10.  With an empty mapping, \<open>moveRel\<close> and \<open>moveAbs\<close> of MultiplexActuator,
  AntiBacklashActuator, LinearActuator, FixedPositionsActuator,
  CombinedSensorActuator, CombinedFixedPositionActuator and RotationActuator return
  \<open>InstantaneousFuture\<close>: they do not raise (whatever the checks would say), submit
  nothing and call no dependency; this includes \<open>moveRel\<close> of the discrete-only
  actuators.  CoupledStage replaces the empty request by the zero shift
  \<open>{"x": 0, "y": 0}\<close> (moveRel) or by its current position (moveAbs) and, when the
  check accepts it, submits the task to its executor.
\<close>

theorem empty_move_instantaneous:
  "MultiplexActuator_moveRel mx check ainv [] = Inr InstantaneousFuture
   \<and> MultiplexActuator_moveAbs mx check ainv [] = Inr InstantaneousFuture
   \<and> AntiBacklashActuator_moveRel st rcheck [] update = Inr InstantaneousFuture
   \<and> AntiBacklashActuator_moveAbs st rcheck [] update = Inr InstantaneousFuture
   \<and> LinearActuator_moveRel check [] = Inr InstantaneousFuture
   \<and> LinearActuator_moveAbs check ainv [] = Inr InstantaneousFuture
   \<and> FixedPositionsActuator_moveRel check [] = Inr InstantaneousFuture
   \<and> FixedPositionsActuator_moveAbs check ainv [] = Inr InstantaneousFuture
   \<and> CombinedSensorActuator_moveRel check [] = Inr InstantaneousFuture
   \<and> CombinedSensorActuator_moveAbs check ainv [] = Inr InstantaneousFuture
   \<and> CombinedFixedPositionActuator_moveRel ([] :: 'v dict) = Inr InstantaneousFuture
   \<and> CombinedFixedPositionActuator_moveAbs axis_name fallback scheck [] = Inr InstantaneousFuture
   \<and> RotationActuator_moveRel check [] = Inr InstantaneousFuture
   \<and> RotationActuator_moveAbs check [] = Inr InstantaneousFuture
   \<and> (rcheck [(''x'', 0), (''y'', 0)] = None
        \<longrightarrow> CoupledStage_moveRel rcheck rinv []
            = Inr (ExecutorSubmit (DoMoveRel (rinv [(''x'', 0), (''y'', 0)])) None))
   \<and> (rcheck position = None
        \<longrightarrow> CoupledStage_moveAbs position rcheck rinv []
            = Inr (ExecutorSubmit (DoMoveAbs (rinv position)) None))"
  by (simp add: MultiplexActuator_moveRel_def MultiplexActuator_moveAbs_def
        AntiBacklashActuator_moveRel_def AntiBacklashActuator_moveAbs_def
        LinearActuator_moveRel_def LinearActuator_moveAbs_def
        FixedPositionsActuator_moveRel_def FixedPositionsActuator_moveAbs_def
        CombinedSensorActuator_moveRel_def CombinedSensorActuator_moveAbs_def
        CombinedFixedPositionActuator_moveRel_def CombinedFixedPositionActuator_moveAbs_def
        RotationActuator_moveRel_def RotationActuator_moveAbs_def
        CoupledStage_moveRel_def CoupledStage_moveAbs_def)

theorem empty_move_instantaneous_witness:
  "(\<lambda>_. None) [(''x'', 0::real), (''y'', 0)] = (None :: py_error option)
   \<and> CoupledStage_moveRel (\<lambda>_. None) (\<lambda>m. m) []
       = Inr (ExecutorSubmit (DoMoveRel [(''x'', 0), (''y'', 0)]) None)
   \<and> CoupledStage_moveAbs [(''x'', 3), (''y'', 4)] (\<lambda>_. None) (\<lambda>m. m) []
       = Inr (ExecutorSubmit (DoMoveAbs [(''x'', 3), (''y'', 4)]) None)
   \<and> FixedPositionsActuator_moveRel (\<lambda>_. Some ValueError) ([] :: real dict) = Inr InstantaneousFuture"
  using empty_move_instantaneous
    [where rcheck = "\<lambda>_. None" and rinv = "\<lambda>m. m" and position = "[(''x'', 3), (''y'', 4)]"
       and check = "\<lambda>_ :: real dict. Some ValueError" and ainv = "\<lambda>m. m"
       and mx = "\<lparr>mx_executor = True, mx_axis_to_dep = []\<rparr>"
       and st = "\<lparr>abl_backlash = [], abl_axes = [], abl_shifted = []\<rparr>"
       and update = False and axis_name = "''pol''" and fallback = "''unknown''"
       and scheck = "\<lambda>_. None"]
  by (simp add: CoupledStage_moveRel_def CoupledStage_moveAbs_def FixedPositionsActuator_moveRel_def)

subsection \<open>CombinedFixedPositionActuator: the reported position\<close>

lemma axis_dist_spec:
  "cyl \<noteq> Some 0 \<Longrightarrow> axis_dist cp tp cyl = Inr (spec_dist cp tp cyl)"
  by (cases cyl) (auto simp: axis_dist_def spec_dist_def py_mod_def)

lemma axes_match_two:
  assumes "c0 \<noteq> Some 0" "c1 \<noteq> Some 0"
  shows "axes_match [p0, p1] [t0, t1] [a0, a1] [c0, c1]
         = Inr (spec_dist p0 t0 c0 \<le> a0 \<and> spec_dist p1 t1 c1 \<le> a1)"
  using assms by (auto simp: axis_dist_spec)

lemma len2: "length xs = 2 \<Longrightarrow> xs = [xs ! 0, xs ! 1]"
  by (cases xs; cases "tl xs") auto

lemma axes_match_spec:
  assumes "length cur = 2" "length tp = 2" "length (cf_atol self) = 2"
    "length (cf_cycle self) = 2" "Some 0 \<notin> set (cf_cycle self)"
  shows "axes_match cur tp (cf_atol self) (cf_cycle self) = Inr (spec_matches self cur tp)"
proof -
  obtain p0 p1 where cur: "cur = [p0, p1]" using len2 [OF assms(1)] by blast
  obtain t0 t1 where tp: "tp = [t0, t1]" using len2 [OF assms(2)] by blast
  obtain a0 a1 where at: "cf_atol self = [a0, a1]" using len2 [OF assms(3)] by blast
  obtain c0 c1 where cy: "cf_cycle self = [c0, c1]" using len2 [OF assms(4)] by blast
  have c: "c0 \<noteq> Some 0" "c1 \<noteq> Some 0" using assms(5) cy by auto
  show ?thesis
    unfolding spec_matches_def cur tp at cy using axes_match_two [OF c] by simp
qed

lemma find_position_spec:
  assumes "length cur = 2" "length (cf_atol self) = 2"
    "length (cf_cycle self) = 2" "Some 0 \<notin> set (cf_cycle self)"
    "\<forall>(k, tp) \<in> set ps. length tp = 2"
  shows "find_position self cur ps =
     (case find (\<lambda>(pos_key, tp). spec_matches self cur tp) ps of
        Some (pos_key, tp) \<Rightarrow> Inr pos_key
      | None \<Rightarrow> Inl LookupError)"
  using assms(5)
proof (induction ps)
  case Nil then show ?case by simp
next
  case (Cons p ps)
  obtain k tp where p: "p = (k, tp)" by (cases p)
  have l: "length tp = 2" using Cons.prems p by auto
  have rest: "\<forall>(k, tp) \<in> set ps. length tp = 2" using Cons.prems by auto
  show ?case
    using Cons.IH [OF rest] axes_match_spec [OF assms(1) l assms(2,3,4)]
    by (simp add: p)
qed

lemma updatePosition_spec:
  assumes "length cur = 2" "length (cf_atol self) = 2"
    "length (cf_cycle self) = 2" "Some 0 \<notin> set (cf_cycle self)"
    "\<forall>(k, tp) \<in> set (cf_positions self). length tp = 2"
  shows "CombinedFixedPositionActuator_updatePosition self cur
           = Inr (spec_reported_position self cur)"
  using find_position_spec [OF assms]
  by (auto simp: CombinedFixedPositionActuator_updatePosition_def
        readPositionfromDependencies_def spec_reported_position_def split: option.splits)

text \<open>
  Claim C6.  For a CombinedFixedPositionActuator with two dependencies (two current
  positions, two tolerances, two cycle entries, none of them 0, and two positions in
  every entry of the table), the position that \<open>_updatePosition\<close> reports is the key
  of the first entry of the table that is within tolerance on both axes, where the
  distance on an axis is \<open>abs(cp - tp)\<close> or, with a cycle,
  \<open>min((cp - tp) mod cycle, (tp - cp) mod cycle)\<close>; when no entry matches it is the
  fallback.  With the positions \<open>{"A": [0, 0], "B": [1, 1]}\<close>, no cycle, the
  fallback \<open>unknown\<close> and the current pair \<open>(0.5, 0.5)\<close>, any tolerances of which
  one is below 0.5 give \<open>unknown\<close>.
\<close>

theorem CombinedFixedPositionActuator_reported_position:
  "(length cur = 2 \<and> length (cf_atol self) = 2 \<and> length (cf_cycle self) = 2
      \<and> Some 0 \<notin> set (cf_cycle self)
      \<and> (\<forall>(k, tp) \<in> set (cf_positions self). length tp = 2)
      \<longrightarrow> CombinedFixedPositionActuator_updatePosition self cur
            = Inr (spec_reported_position self cur))
   \<and> (a0 < 1/2 \<or> a1 < 1/2
      \<longrightarrow> CombinedFixedPositionActuator_updatePosition
            \<lparr>cf_positions = [(''A'', [0, 0]), (''B'', [1, 1])], cf_atol = [a0, a1],
             cf_cycle = [None, None], cf_fallback = ''unknown''\<rparr> [1/2, 1/2]
            = Inr ''unknown'')"
proof (intro conjI impI)
  assume "length cur = 2 \<and> length (cf_atol self) = 2 \<and> length (cf_cycle self) = 2
      \<and> Some 0 \<notin> set (cf_cycle self)
      \<and> (\<forall>(k, tp) \<in> set (cf_positions self). length tp = 2)"
  then show "CombinedFixedPositionActuator_updatePosition self cur
            = Inr (spec_reported_position self cur)"
    by (intro updatePosition_spec) simp_all
next
  assume "a0 < 1/2 \<or> a1 < 1/2"
  then show "CombinedFixedPositionActuator_updatePosition
            \<lparr>cf_positions = [(''A'', [0, 0]), (''B'', [1, 1])], cf_atol = [a0, a1],
             cf_cycle = [None, None], cf_fallback = ''unknown''\<rparr> [1/2, 1/2]
            = Inr ''unknown''"
    by (auto simp: CombinedFixedPositionActuator_updatePosition_def
          readPositionfromDependencies_def axis_dist_def)
qed

theorem CombinedFixedPositionActuator_reported_position_witness:
  "CombinedFixedPositionActuator_updatePosition
      \<lparr>cf_positions = [(''A'', [0, 0]), (''B'', [180, 1])], cf_atol = [1, 1/10],
       cf_cycle = [Some 360, None], cf_fallback = ''unknown''\<rparr> [719/2, 0]
     = Inr ''A''
   \<and> spec_reported_position
      \<lparr>cf_positions = [(''A'', [0, 0]), (''B'', [180, 1])], cf_atol = [1, 1/10],
       cf_cycle = [Some 360, None], cf_fallback = ''unknown''\<rparr> [719/2, 0]
     = ''A''
   \<and> CombinedFixedPositionActuator_updatePosition
      \<lparr>cf_positions = [(''A'', [0, 0]), (''B'', [1, 1])], cf_atol = [1/10, 1/10],
       cf_cycle = [None, None], cf_fallback = ''unknown''\<rparr> [1/2, 1/2]
     = Inr ''unknown''"
  using CombinedFixedPositionActuator_reported_position
    [of "[719/2, 0]"
        "\<lparr>cf_positions = [(''A'', [0, 0]), (''B'', [180, 1])], cf_atol = [1, 1/10],
          cf_cycle = [Some 360, None], cf_fallback = ''unknown''\<rparr>"
        "1/10" "1/10"]
  by (simp add: spec_reported_position_def spec_matches_def spec_dist_def fmod_def)

subsection \<open>CombinedSensorActuator: corrective moves\<close>

lemma correct_loop_general:
  "retry < 10 \<Longrightarrow>
   \<exists>e n. correct_loop env axis p_cor exp_spos retry tot_shift spos calls
           = Some (e, calls @ replicate n (MoveRel [(axis, (p_cor - prev_pos env) * (1/10))]))
         \<and> retry + n < 10
         \<and> (e = Reached (tot_shift + of_nat n * ((p_cor - prev_pos env) * (1/10)))
            \<or> e = GaveUp \<and> n = 0 \<and> p_cor = prev_pos env \<or> e = Failure IOError)"
proof (induction "10 - retry" arbitrary: retry tot_shift spos calls)
  case 0
  then show ?case by simp
next
  case (Suc m)
  let ?shift = "(p_cor - prev_pos env) * (1/10)"
  let ?mv = "MoveRel [(axis, ?shift)]"
  show ?case
  proof (cases "spos = exp_spos")
    case True
    then have "correct_loop env axis p_cor exp_spos retry tot_shift spos calls
                 = Some (Reached tot_shift, calls @ replicate 0 ?mv)"
      by (subst correct_loop.simps) simp
    then show ?thesis using Suc.prems by force
  next
    case ne: False
    show ?thesis
    proof (cases "retry + 1 = 10")
      case True
      with ne have "correct_loop env axis p_cor exp_spos retry tot_shift spos calls
                 = Some (Failure IOError, calls @ replicate 0 ?mv)"
        by (subst correct_loop.simps) simp
      then show ?thesis using Suc.prems by force
    next
      case r: False
      show ?thesis
      proof (cases "p_cor = prev_pos env")
        case True
        with ne r have "correct_loop env axis p_cor exp_spos retry tot_shift spos calls
                 = Some (GaveUp, calls @ replicate 0 ?mv)"
          by (subst correct_loop.simps) simp
        then show ?thesis using Suc.prems True by force
      next
        case pc: False
        show ?thesis
        proof (cases "rel_result env (retry + 1)")
          case (Some ex)
          with ne r pc have "correct_loop env axis p_cor exp_spos retry tot_shift spos calls
                 = Some (Failure IOError, calls @ replicate 1 ?mv)"
            by (subst correct_loop.simps) (simp add: Let_def)
          moreover have "retry + 1 < 10" using Suc.prems r by simp
          ultimately show ?thesis by blast
        next
          case None
          with ne r pc have step: "correct_loop env axis p_cor exp_spos retry tot_shift spos calls
                 = correct_loop env axis p_cor exp_spos (retry + 1) (tot_shift + ?shift)
                     (sensor env (retry + 1)) (calls @ [?mv])"
            by (subst correct_loop.simps) (simp add: Let_def)
          have m: "m = 10 - (retry + 1)" and lt: "retry + 1 < 10" using Suc.hyps(2) Suc.prems r by simp_all
          from Suc.hyps(1) [OF m lt, of "tot_shift + ?shift" "sensor env (retry + 1)" "calls @ [?mv]"]
          obtain e n where
            res: "correct_loop env axis p_cor exp_spos (retry + 1) (tot_shift + ?shift)
                     (sensor env (retry + 1)) (calls @ [?mv])
                   = Some (e, (calls @ [?mv]) @ replicate n ?mv)"
            and n: "retry + 1 + n < 10"
            and e: "e = Reached (tot_shift + ?shift + of_nat n * ?shift)
                    \<or> e = GaveUp \<and> n = 0 \<and> p_cor = prev_pos env \<or> e = Failure IOError"
            by blast
          have app: "(calls @ [?mv]) @ replicate n ?mv = calls @ replicate (Suc n) ?mv"
            by (simp add: replicate_app_Cons_same)
          have "\<And>s :: real. tot_shift + s + of_nat n * s = tot_shift + of_nat (Suc n) * s"
            by (simp add: distrib_right)
          then have tot: "tot_shift + ?shift + of_nat n * ?shift
                            = tot_shift + of_nat (Suc n) * ?shift" .
          have "correct_loop env axis p_cor exp_spos retry tot_shift spos calls
                  = Some (e, calls @ replicate (Suc n) ?mv)"
            using step res app by simp
          moreover have "retry + Suc n < 10" using n by simp
          moreover have "e = Reached (tot_shift + of_nat (Suc n) * ?shift) \<or> e = Failure IOError"
            using e pc tot by auto
          ultimately show ?thesis by blast
        qed
      qed
    qed
  qed
qed

lemma correct_loop_reach:
  assumes "\<forall>i<k. sensor env (retry + i) \<noteq> exp_spos"
    and "sensor env (retry + k) = exp_spos"
    and "retry + k < 10"
    and "\<forall>i. retry < i \<and> i \<le> retry + k \<longrightarrow> rel_result env i = None"
    and "0 < k \<longrightarrow> p_cor \<noteq> prev_pos env"
  shows "correct_loop env axis p_cor exp_spos retry tot_shift (sensor env retry) calls
           = Some (Reached (tot_shift + of_nat k * ((p_cor - prev_pos env) * (1/10))),
                   calls @ replicate k (MoveRel [(axis, (p_cor - prev_pos env) * (1/10))]))"
  using assms
proof (induction k arbitrary: retry tot_shift calls)
  case 0
  then show ?case by (subst correct_loop.simps) simp
next
  case (Suc k)
  let ?shift = "(p_cor - prev_pos env) * (1/10)"
  let ?mv = "MoveRel [(axis, ?shift)]"
  have ne: "sensor env retry \<noteq> exp_spos" using Suc.prems(1) by force
  have r: "retry + 1 \<noteq> 10" using Suc.prems(3) by simp
  have pc: "p_cor \<noteq> prev_pos env" using Suc.prems(5) by simp
  have ok: "rel_result env (retry + 1) = None" using Suc.prems(4) by simp
  have step: "correct_loop env axis p_cor exp_spos retry tot_shift (sensor env retry) calls
                 = correct_loop env axis p_cor exp_spos (retry + 1) (tot_shift + ?shift)
                     (sensor env (retry + 1)) (calls @ [?mv])"
    using ne r pc ok by (subst correct_loop.simps) (simp add: Let_def)
  have a1: "\<forall>i<k. sensor env (retry + 1 + i) \<noteq> exp_spos"
  proof (intro allI impI)
    fix i assume "i < k"
    then have "Suc i < Suc k" by simp
    with Suc.prems(1) have "sensor env (retry + Suc i) \<noteq> exp_spos" by blast
    then show "sensor env (retry + 1 + i) \<noteq> exp_spos" by simp
  qed
  have a2: "sensor env (retry + 1 + k) = exp_spos" using Suc.prems(2) by simp
  have a3: "retry + 1 + k < 10" using Suc.prems(3) by simp
  have a4: "\<forall>i. retry + 1 < i \<and> i \<le> retry + 1 + k \<longrightarrow> rel_result env i = None"
    using Suc.prems(4) by simp
  have a5: "0 < k \<longrightarrow> p_cor \<noteq> prev_pos env" using pc by simp
  have "\<And>s :: real. tot_shift + s + of_nat k * s = tot_shift + of_nat (Suc k) * s"
    by (simp add: distrib_right)
  then have tot: "tot_shift + ?shift + of_nat k * ?shift = tot_shift + of_nat (Suc k) * ?shift" .
  have app: "(calls @ [?mv]) @ replicate k ?mv = calls @ replicate (Suc k) ?mv"
    by (simp add: replicate_app_Cons_same)
  show ?case
    using Suc.IH [OF a1 a2 a3 a4 a5, of "tot_shift + ?shift" "calls @ [?mv]"] step tot app
    by simp
qed

lemma correct_loop_exhaust:
  assumes "\<forall>i. retry \<le> i \<and> i \<le> 9 \<longrightarrow> sensor env i \<noteq> exp_spos"
    and "\<forall>i. retry < i \<and> i \<le> 9 \<longrightarrow> rel_result env i = None"
    and "p_cor \<noteq> prev_pos env"
    and "retry \<le> 9"
  shows "correct_loop env axis p_cor exp_spos retry tot_shift (sensor env retry) calls
           = Some (Failure IOError,
                   calls @ replicate (9 - retry) (MoveRel [(axis, (p_cor - prev_pos env) * (1/10))]))"
  using assms
proof (induction "9 - retry" arbitrary: retry tot_shift calls)
  case 0
  then have r: "retry = 9" by simp
  have ne: "sensor env retry \<noteq> exp_spos" using "0.prems"(1,4) by simp
  show ?case using ne r by (subst correct_loop.simps) simp
next
  case (Suc m)
  let ?shift = "(p_cor - prev_pos env) * (1/10)"
  let ?mv = "MoveRel [(axis, ?shift)]"
  have lt: "retry < 9" using Suc.hyps(2) by simp
  have ne: "sensor env retry \<noteq> exp_spos" using Suc.prems(1,4) by simp
  have r: "retry + 1 \<noteq> 10" using lt by simp
  have ok: "rel_result env (retry + 1) = None" using Suc.prems(2) lt by simp
  have step: "correct_loop env axis p_cor exp_spos retry tot_shift (sensor env retry) calls
                 = correct_loop env axis p_cor exp_spos (retry + 1) (tot_shift + ?shift)
                     (sensor env (retry + 1)) (calls @ [?mv])"
    using ne r Suc.prems(3) ok by (subst correct_loop.simps) (simp add: Let_def)
  have m: "m = 9 - (retry + 1)" using Suc.hyps(2) by simp
  have a1: "\<forall>i. retry + 1 \<le> i \<and> i \<le> 9 \<longrightarrow> sensor env i \<noteq> exp_spos"
    using Suc.prems(1) by simp
  have a2: "\<forall>i. retry + 1 < i \<and> i \<le> 9 \<longrightarrow> rel_result env i = None"
    using Suc.prems(2) by simp
  have a4: "retry + 1 \<le> 9" using lt by simp
  have app: "(calls @ [?mv]) @ replicate (9 - (retry + 1)) ?mv = calls @ replicate (9 - retry) ?mv"
  proof -
    have "9 - retry = Suc (9 - (retry + 1))" using lt by simp
    then show ?thesis by (simp add: replicate_app_Cons_same)
  qed
  show ?case
    using Suc.hyps(1) [OF m a1 a2 Suc.prems(3) a4, of "tot_shift + ?shift" "calls @ [?mv]"] step app
    by simp
qed

lemma correct_loop_give_up:
  assumes "spos \<noteq> exp_spos" and "p_cor = prev_pos env"
  shows "correct_loop env axis p_cor exp_spos 0 tot_shift spos calls = Some (GaveUp, calls)"
  using assms by (subst correct_loop.simps) simp

lemma doMoveAbs_loop:
  assumes "map_of pos (csa_axis self) = Some p"
    and "map_of (csa_to_sensor self) p = Some exp_spos"
    and "main_result env = None"
    and "correct_loop env (csa_axis self) (p + csa_pos_shift self) exp_spos 0 0 (sensor env 0)
           [MoveAbs pos] = Some (e, calls)"
  shows "CombinedSensorActuator_doMoveAbs self env pos =
     Some (case e of
        Reached tot_shift \<Rightarrow>
          \<lparr>csa_state = self\<lparr>csa_pos_shift := csa_pos_shift self + tot_shift\<rparr>,
           csa_calls = calls, csa_outcome = Returned\<rparr>
      | GaveUp \<Rightarrow> \<lparr>csa_state = self, csa_calls = calls, csa_outcome = Returned\<rparr>
      | Failure err \<Rightarrow> \<lparr>csa_state = self, csa_calls = calls, csa_outcome = Raised err\<rparr>)"
  using assms by (cases e) (simp_all add: CombinedSensorActuator_doMoveAbs_def Let_def)

lemma correct_loop_move_fails:
  assumes "\<forall>i \<le> k. sensor env (retry + i) \<noteq> exp_spos"
    and "\<forall>i. retry < i \<and> i \<le> retry + k \<longrightarrow> rel_result env i = None"
    and "rel_result env (retry + Suc k) = Some ex"
    and "retry + Suc k < 10"
    and "p_cor \<noteq> prev_pos env"
  shows "correct_loop env axis p_cor exp_spos retry tot_shift (sensor env retry) calls
           = Some (Failure IOError,
                   calls @ replicate (Suc k) (MoveRel [(axis, (p_cor - prev_pos env) * (1/10))]))"
  using assms
proof (induction k arbitrary: retry tot_shift calls)
  case 0
  have ne: "sensor env retry \<noteq> exp_spos" using "0.prems"(1) by force
  have r: "retry + 1 \<noteq> 10" using "0.prems"(4) by simp
  have f: "rel_result env (retry + 1) = Some ex" using "0.prems"(3) by simp
  show ?case
    using ne r f "0.prems"(5) by (subst correct_loop.simps) (simp add: Let_def)
next
  case (Suc k)
  let ?shift = "(p_cor - prev_pos env) * (1/10)"
  let ?mv = "MoveRel [(axis, ?shift)]"
  have ne: "sensor env retry \<noteq> exp_spos" using Suc.prems(1) by force
  have r: "retry + 1 \<noteq> 10" using Suc.prems(4) by simp
  have ok: "rel_result env (retry + 1) = None" using Suc.prems(2) by simp
  have step: "correct_loop env axis p_cor exp_spos retry tot_shift (sensor env retry) calls
                 = correct_loop env axis p_cor exp_spos (retry + 1) (tot_shift + ?shift)
                     (sensor env (retry + 1)) (calls @ [?mv])"
    using ne r Suc.prems(5) ok by (subst correct_loop.simps) (simp add: Let_def)
  have a1: "\<forall>i \<le> k. sensor env (retry + 1 + i) \<noteq> exp_spos"
  proof (intro allI impI)
    fix i assume "i \<le> k"
    then have "Suc i \<le> Suc k" by simp
    with Suc.prems(1) have "sensor env (retry + Suc i) \<noteq> exp_spos" by blast
    then show "sensor env (retry + 1 + i) \<noteq> exp_spos" by simp
  qed
  have a2: "\<forall>i. retry + 1 < i \<and> i \<le> retry + 1 + k \<longrightarrow> rel_result env i = None"
    using Suc.prems(2) by simp
  have a3: "rel_result env (retry + 1 + Suc k) = Some ex" using Suc.prems(3) by simp
  have a4: "retry + 1 + Suc k < 10" using Suc.prems(4) by simp
  have app: "(calls @ [?mv]) @ replicate (Suc k) ?mv = calls @ replicate (Suc (Suc k)) ?mv"
    by (simp add: replicate_app_Cons_same)
  show ?case
    using Suc.IH [OF a1 a2 a3 a4 Suc.prems(5), of "tot_shift + ?shift" "calls @ [?mv]"] step app
    by simp
qed

text \<open>
  Claim C5 (amended).  Let a commanded absolute move of a CombinedSensorActuator
  complete.  When the sensor then differs from the expected value, and the corrected
  target \<open>p + _pos_shift\<close> differs from the position before the move, the task
  issues successive corrective relative moves, each of exactly 10% of that
  difference, bounded to 10 attempts: an attempt is a pass of the retry loop, begun
  by a reading of the sensor that differs from the expected value.  The 10th
  attempt, and likewise a corrective move that fails, makes the task raise an
  IOError, and then the correction offset \<open>_pos_shift\<close> is what it was before the
  move.  When a reading shows the expected value, the task returns and the offset
  has grown by the shifts made.  When the corrected target equals the position
  before the move, the task returns at the first differing reading, with no
  corrective move and no error.  In every case the task ends.
\<close>

theorem CombinedSensorActuator_doMoveAbs_correction:
  assumes "map_of pos (csa_axis self) = Some p"
    and "map_of (csa_to_sensor self) p = Some exp_spos"
    and "main_result env = None"
  shows "(\<exists>r n. CombinedSensorActuator_doMoveAbs self env pos = Some r \<and> n \<le> 9
            \<and> csa_calls r = MoveAbs pos # replicate n
                 (MoveRel [(csa_axis self, (p + csa_pos_shift self - prev_pos env) * (1/10))])
            \<and> (csa_outcome r = Returned \<or> csa_outcome r = Raised IOError)
            \<and> (csa_outcome r = Raised IOError \<longrightarrow> csa_state r = self))
       \<and> ((\<forall>i \<le> 9. sensor env i \<noteq> exp_spos)
            \<and> (\<forall>i. 1 \<le> i \<and> i \<le> 9 \<longrightarrow> rel_result env i = None)
            \<and> p + csa_pos_shift self \<noteq> prev_pos env
          \<longrightarrow> CombinedSensorActuator_doMoveAbs self env pos =
                Some \<lparr>csa_state = self,
                      csa_calls = MoveAbs pos # replicate 9
                        (MoveRel [(csa_axis self, (p + csa_pos_shift self - prev_pos env) * (1/10))]),
                      csa_outcome = Raised IOError\<rparr>)
       \<and> (k \<le> 9 \<and> (\<forall>i<k. sensor env i \<noteq> exp_spos) \<and> sensor env k = exp_spos
            \<and> (\<forall>i. 1 \<le> i \<and> i \<le> k \<longrightarrow> rel_result env i = None)
            \<and> (0 < k \<longrightarrow> p + csa_pos_shift self \<noteq> prev_pos env)
          \<longrightarrow> CombinedSensorActuator_doMoveAbs self env pos =
                Some \<lparr>csa_state = self\<lparr>csa_pos_shift := csa_pos_shift self
                        + of_nat k * ((p + csa_pos_shift self - prev_pos env) * (1/10))\<rparr>,
                      csa_calls = MoveAbs pos # replicate k
                        (MoveRel [(csa_axis self, (p + csa_pos_shift self - prev_pos env) * (1/10))]),
                      csa_outcome = Returned\<rparr>)
       \<and> (j < 9 \<and> (\<forall>i \<le> j. sensor env i \<noteq> exp_spos)
            \<and> (\<forall>i. 1 \<le> i \<and> i \<le> j \<longrightarrow> rel_result env i = None)
            \<and> rel_result env (Suc j) \<noteq> None
            \<and> p + csa_pos_shift self \<noteq> prev_pos env
          \<longrightarrow> CombinedSensorActuator_doMoveAbs self env pos =
                Some \<lparr>csa_state = self,
                      csa_calls = MoveAbs pos # replicate (Suc j)
                        (MoveRel [(csa_axis self, (p + csa_pos_shift self - prev_pos env) * (1/10))]),
                      csa_outcome = Raised IOError\<rparr>)
       \<and> (sensor env 0 \<noteq> exp_spos \<and> p + csa_pos_shift self = prev_pos env
          \<longrightarrow> CombinedSensorActuator_doMoveAbs self env pos =
                Some \<lparr>csa_state = self, csa_calls = [MoveAbs pos], csa_outcome = Returned\<rparr>)"
proof (intro conjI impI)
  let ?pc = "p + csa_pos_shift self"
  let ?mv = "MoveRel [(csa_axis self, (?pc - prev_pos env) * (1/10))]"
  from correct_loop_general [of 0 env "csa_axis self" ?pc exp_spos 0 "sensor env 0" "[MoveAbs pos]"]
  obtain e n where
    loop: "correct_loop env (csa_axis self) ?pc exp_spos 0 0 (sensor env 0) [MoveAbs pos]
             = Some (e, [MoveAbs pos] @ replicate n ?mv)"
    and n: "n < 10"
    and e: "e = Reached (0 + of_nat n * ((?pc - prev_pos env) * (1/10)))
            \<or> e = GaveUp \<and> n = 0 \<and> ?pc = prev_pos env \<or> e = Failure IOError"
    by auto
  let ?R = "case e of
        Reached tot_shift \<Rightarrow>
          \<lparr>csa_state = self\<lparr>csa_pos_shift := csa_pos_shift self + tot_shift\<rparr>,
           csa_calls = [MoveAbs pos] @ replicate n ?mv, csa_outcome = Returned\<rparr>
      | GaveUp \<Rightarrow>
          \<lparr>csa_state = self, csa_calls = [MoveAbs pos] @ replicate n ?mv,
           csa_outcome = Returned\<rparr>
      | Failure err \<Rightarrow>
          \<lparr>csa_state = self, csa_calls = [MoveAbs pos] @ replicate n ?mv,
           csa_outcome = Raised err\<rparr>"
  have R: "CombinedSensorActuator_doMoveAbs self env pos = Some ?R"
    by (rule doMoveAbs_loop [OF assms loop])
  have "n \<le> 9" using n by simp
  moreover have "csa_calls ?R = MoveAbs pos # replicate n ?mv"
    using e by (auto split: loop_end.splits)
  moreover have "csa_outcome ?R = Returned \<or> csa_outcome ?R = Raised IOError"
    using e by (auto split: loop_end.splits)
  moreover have "csa_outcome ?R = Raised IOError \<longrightarrow> csa_state ?R = self"
    using e by (auto split: loop_end.splits)
  ultimately
  show "\<exists>r n. CombinedSensorActuator_doMoveAbs self env pos = Some r \<and> n \<le> 9
            \<and> csa_calls r = MoveAbs pos # replicate n ?mv
            \<and> (csa_outcome r = Returned \<or> csa_outcome r = Raised IOError)
            \<and> (csa_outcome r = Raised IOError \<longrightarrow> csa_state r = self)"
    using R by blast
next
  let ?pc = "p + csa_pos_shift self"
  assume h: "(\<forall>i \<le> 9. sensor env i \<noteq> exp_spos)
            \<and> (\<forall>i. 1 \<le> i \<and> i \<le> 9 \<longrightarrow> rel_result env i = None)
            \<and> ?pc \<noteq> prev_pos env"
  have "correct_loop env (csa_axis self) ?pc exp_spos 0 0 (sensor env 0) [MoveAbs pos]
          = Some (Failure IOError, [MoveAbs pos] @ replicate (9 - 0)
                    (MoveRel [(csa_axis self, (?pc - prev_pos env) * (1/10))]))"
    by (rule correct_loop_exhaust) (use h in auto)
  from doMoveAbs_loop [OF assms this]
  show "CombinedSensorActuator_doMoveAbs self env pos =
                Some \<lparr>csa_state = self,
                      csa_calls = MoveAbs pos # replicate 9
                        (MoveRel [(csa_axis self, (?pc - prev_pos env) * (1/10))]),
                      csa_outcome = Raised IOError\<rparr>"
    by simp
next
  let ?pc = "p + csa_pos_shift self"
  assume h: "k \<le> 9 \<and> (\<forall>i<k. sensor env i \<noteq> exp_spos) \<and> sensor env k = exp_spos
            \<and> (\<forall>i. 1 \<le> i \<and> i \<le> k \<longrightarrow> rel_result env i = None)
            \<and> (0 < k \<longrightarrow> ?pc \<noteq> prev_pos env)"
  have "correct_loop env (csa_axis self) ?pc exp_spos 0 0 (sensor env 0) [MoveAbs pos]
          = Some (Reached (0 + of_nat k * ((?pc - prev_pos env) * (1/10))),
                  [MoveAbs pos] @ replicate k
                    (MoveRel [(csa_axis self, (?pc - prev_pos env) * (1/10))]))"
    by (rule correct_loop_reach) (use h in auto)
  from doMoveAbs_loop [OF assms this]
  show "CombinedSensorActuator_doMoveAbs self env pos =
                Some \<lparr>csa_state = self\<lparr>csa_pos_shift := csa_pos_shift self
                        + of_nat k * ((?pc - prev_pos env) * (1/10))\<rparr>,
                      csa_calls = MoveAbs pos # replicate k
                        (MoveRel [(csa_axis self, (?pc - prev_pos env) * (1/10))]),
                      csa_outcome = Returned\<rparr>"
    by simp
next
  let ?pc = "p + csa_pos_shift self"
  assume h: "j < 9 \<and> (\<forall>i \<le> j. sensor env i \<noteq> exp_spos)
            \<and> (\<forall>i. 1 \<le> i \<and> i \<le> j \<longrightarrow> rel_result env i = None)
            \<and> rel_result env (Suc j) \<noteq> None
            \<and> ?pc \<noteq> prev_pos env"
  then obtain ex where ex: "rel_result env (0 + Suc j) = Some ex" by auto
  have "correct_loop env (csa_axis self) ?pc exp_spos 0 0 (sensor env 0) [MoveAbs pos]
          = Some (Failure IOError, [MoveAbs pos] @ replicate (Suc j)
                    (MoveRel [(csa_axis self, (?pc - prev_pos env) * (1/10))]))"
    by (rule correct_loop_move_fails [OF _ _ ex]) (use h in auto)
  from doMoveAbs_loop [OF assms this]
  show "CombinedSensorActuator_doMoveAbs self env pos =
                Some \<lparr>csa_state = self,
                      csa_calls = MoveAbs pos # replicate (Suc j)
                        (MoveRel [(csa_axis self, (?pc - prev_pos env) * (1/10))]),
                      csa_outcome = Raised IOError\<rparr>"
    by simp
next
  assume h: "sensor env 0 \<noteq> exp_spos \<and> p + csa_pos_shift self = prev_pos env"
  then have "correct_loop env (csa_axis self) (p + csa_pos_shift self) exp_spos 0 0 (sensor env 0)
          [MoveAbs pos] = Some (GaveUp, [MoveAbs pos])"
    by (intro correct_loop_give_up) simp_all
  from doMoveAbs_loop [OF assms this]
  show "CombinedSensorActuator_doMoveAbs self env pos =
                Some \<lparr>csa_state = self, csa_calls = [MoveAbs pos], csa_outcome = Returned\<rparr>"
    by simp
qed

theorem CombinedSensorActuator_doMoveAbs_correction_witness:
  "CombinedSensorActuator_doMoveAbs
      \<lparr>csa_axis = ''x'', csa_axis_sensor = ''s'', csa_to_sensor = [(0, False), (1, True)],
       csa_pos_shift = 0\<rparr>
      \<lparr>prev_pos = 0, main_result = None, sensor = (\<lambda>k. 3 \<le> k), rel_result = (\<lambda>k. None)\<rparr>
      [(''x'', 1)]
     = Some \<lparr>csa_state = \<lparr>csa_axis = ''x'', csa_axis_sensor = ''s'',
                           csa_to_sensor = [(0, False), (1, True)], csa_pos_shift = 3/10\<rparr>,
              csa_calls = [MoveAbs [(''x'', 1)], MoveRel [(''x'', 1/10)], MoveRel [(''x'', 1/10)],
                           MoveRel [(''x'', 1/10)]],
              csa_outcome = Returned\<rparr>
   \<and> CombinedSensorActuator_doMoveAbs
      \<lparr>csa_axis = ''x'', csa_axis_sensor = ''s'', csa_to_sensor = [(0, False), (1, True)],
       csa_pos_shift = 0\<rparr>
      \<lparr>prev_pos = 0, main_result = None, sensor = (\<lambda>k. False), rel_result = (\<lambda>k. None)\<rparr>
      [(''x'', 1)]
     = Some \<lparr>csa_state = \<lparr>csa_axis = ''x'', csa_axis_sensor = ''s'',
                           csa_to_sensor = [(0, False), (1, True)], csa_pos_shift = 0\<rparr>,
              csa_calls = MoveAbs [(''x'', 1)] # replicate 9 (MoveRel [(''x'', 1/10)]),
              csa_outcome = Raised IOError\<rparr>
   \<and> CombinedSensorActuator_doMoveAbs
      \<lparr>csa_axis = ''x'', csa_axis_sensor = ''s'', csa_to_sensor = [(0, False), (1, True)],
       csa_pos_shift = 0\<rparr>
      \<lparr>prev_pos = 0, main_result = None, sensor = (\<lambda>k. False),
       rel_result = (\<lambda>k. if k = 2 then Some DepError else None)\<rparr>
      [(''x'', 1)]
     = Some \<lparr>csa_state = \<lparr>csa_axis = ''x'', csa_axis_sensor = ''s'',
                           csa_to_sensor = [(0, False), (1, True)], csa_pos_shift = 0\<rparr>,
              csa_calls = [MoveAbs [(''x'', 1)], MoveRel [(''x'', 1/10)], MoveRel [(''x'', 1/10)]],
              csa_outcome = Raised IOError\<rparr>
   \<and> CombinedSensorActuator_doMoveAbs
      \<lparr>csa_axis = ''x'', csa_axis_sensor = ''s'', csa_to_sensor = [(0, False), (1, True)],
       csa_pos_shift = 0\<rparr>
      \<lparr>prev_pos = 1, main_result = None, sensor = (\<lambda>k. 5 \<le> k), rel_result = (\<lambda>k. None)\<rparr>
      [(''x'', 1)]
     = Some \<lparr>csa_state = \<lparr>csa_axis = ''x'', csa_axis_sensor = ''s'',
                           csa_to_sensor = [(0, False), (1, True)], csa_pos_shift = 0\<rparr>,
              csa_calls = [MoveAbs [(''x'', 1)]],
              csa_outcome = Returned\<rparr>"
  using CombinedSensorActuator_doMoveAbs_correction
    [where pos = "[(''x'', 1)]" and p = 1 and exp_spos = True and k = 3 and j = 0
       and self = "\<lparr>csa_axis = ''x'', csa_axis_sensor = ''s'',
                    csa_to_sensor = [(0, False), (1, True)], csa_pos_shift = 0\<rparr>"
       and env = "\<lparr>prev_pos = 0, main_result = None, sensor = (\<lambda>k. 3 \<le> k),
                   rel_result = (\<lambda>k. None)\<rparr>"]
    CombinedSensorActuator_doMoveAbs_correction
    [where pos = "[(''x'', 1)]" and p = 1 and exp_spos = True and k = 0 and j = 0
       and self = "\<lparr>csa_axis = ''x'', csa_axis_sensor = ''s'',
                    csa_to_sensor = [(0, False), (1, True)], csa_pos_shift = 0\<rparr>"
       and env = "\<lparr>prev_pos = 0, main_result = None, sensor = (\<lambda>k. False),
                   rel_result = (\<lambda>k. None)\<rparr>"]
    CombinedSensorActuator_doMoveAbs_correction
    [where pos = "[(''x'', 1)]" and p = 1 and exp_spos = True and k = 0 and j = 1
       and self = "\<lparr>csa_axis = ''x'', csa_axis_sensor = ''s'',
                    csa_to_sensor = [(0, False), (1, True)], csa_pos_shift = 0\<rparr>"
       and env = "\<lparr>prev_pos = 0, main_result = None, sensor = (\<lambda>k. False),
                   rel_result = (\<lambda>k. if k = 2 then Some DepError else None)\<rparr>"]
    CombinedSensorActuator_doMoveAbs_correction
    [where pos = "[(''x'', 1)]" and p = 1 and exp_spos = True and k = 5 and j = 0
       and self = "\<lparr>csa_axis = ''x'', csa_axis_sensor = ''s'',
                    csa_to_sensor = [(0, False), (1, True)], csa_pos_shift = 0\<rparr>"
       and env = "\<lparr>prev_pos = 1, main_result = None, sensor = (\<lambda>k. 5 \<le> k),
                   rel_result = (\<lambda>k. None)\<rparr>"]
  by (simp add: numeral_eq_Suc)

text \<open>
  The claim as stated has the corrective moves, and after them the IOError, follow
  every mismatch.  When the corrected target equals the position before the move,
  the task returns at the first mismatch: with the sensor reporting \<open>False\<close> where
  \<open>True\<close> is expected, it issues the absolute move only and raises nothing.
\<close>

theorem CombinedSensorActuator_give_up_counterexample:
  "map_of [(0 :: real, False), (1, True)] 1 = Some True
   \<and> CombinedSensorActuator_doMoveAbs
      \<lparr>csa_axis = ''x'', csa_axis_sensor = ''s'', csa_to_sensor = [(0, False), (1, True)],
       csa_pos_shift = 0\<rparr>
      \<lparr>prev_pos = 1, main_result = None, sensor = (\<lambda>k. False), rel_result = (\<lambda>k. None)\<rparr>
      [(''x'', 1)]
     = Some \<lparr>csa_state = \<lparr>csa_axis = ''x'', csa_axis_sensor = ''s'',
                           csa_to_sensor = [(0, False), (1, True)], csa_pos_shift = 0\<rparr>,
              csa_calls = [MoveAbs [(''x'', 1)]],
              csa_outcome = Returned\<rparr>"
  by (simp add: CombinedSensorActuator_doMoveAbs_def correct_loop.simps Let_def)

end
